theory Spec2Isabelle
  imports Complex_Main
begin

section \<open>Data model\<close>

text \<open>
  The conversion routines of \<^verbatim>\<open>utm.cpp\<close> (current version, after the switch to the
  Karney/Kawase series) work on C \<^verbatim>\<open>double\<close>s. A \<^verbatim>\<open>double\<close> is modelled by a
  \<open>real\<close>: rounding is not modelled, and the functions of \<^verbatim>\<open>math.h\<close> are the
  real functions of the same name. Where the C code leaves the finite numbers (a division
  by zero) the model says so explicitly.

  The enumeration \<^verbatim>\<open>GridZone\<close> is used by the code through casts to and from
  \<^verbatim>\<open>unsigned\<close>; it is modelled by the enumerator values themselves.
\<close>

type_synonym GridZone = nat

definition UTM_ZONE_AUTO :: GridZone where "UTM_ZONE_AUTO = 0"
definition UPS_NORTH :: GridZone where "UPS_NORTH = 61"
definition UPS_SOUTH :: GridZone where "UPS_SOUTH = 62"
definition GRID_AUTO :: GridZone where "GRID_AUTO = 63"

datatype Hemisphere = HEMI_AUTO | HEMI_NORTH | HEMI_SOUTH

text \<open>
  Output parameters are pointers in the source. A call is modelled by state passing: the
  function takes the contents of the cells its pointers designate and returns their
  contents on return. A cell the function never assigns keeps its previous contents.
\<close>

record grid_cells =
  N_cell :: real
  E_cell :: real

record geo_cells =
  lat_cell :: real
  lon_cell :: real

record zone_cells = grid_cells +
  zone_cell :: GridZone
  hemi_cell :: Hemisphere

record scale_cells = grid_cells +
  conv_cell :: real
  scale_cell :: real

section \<open>Functions of the C library\<close>

definition fabs :: "real \<Rightarrow> real" where
  "fabs x = \<bar>x\<bar>"

text \<open>\<^verbatim>\<open>fmod(x, y)\<close>: the remainder of the division truncated towards zero.\<close>

definition fmod :: "real \<Rightarrow> real \<Rightarrow> real" where
  "fmod x y = x - y * of_int (if 0 \<le> x / y then \<lfloor>x / y\<rfloor> else \<lceil>x / y\<rceil>)"

text \<open>\<^verbatim>\<open>pow(x, y)\<close>, used by the source with a non-negative base only.\<close>

definition pow :: "real \<Rightarrow> real \<Rightarrow> real" where
  "pow x y = x powr y"

text \<open>\<^verbatim>\<open>atan2(y, x)\<close>: the angle of the point \<open>(x, y)\<close>, in \<open>(-\<pi>, \<pi>]\<close>.\<close>

definition atan2 :: "real \<Rightarrow> real \<Rightarrow> real" where
  "atan2 y x =
     (if 0 < x then arctan (y / x)
      else if x < 0 then (if 0 \<le> y then arctan (y / x) + pi else arctan (y / x) - pi)
      else if 0 < y then pi / 2
      else if y < 0 then - (pi / 2)
      else 0)"

section \<open>Projections for a sphere\<close>

definition geographic_to_tm_sphere ::
  "real \<Rightarrow> real \<Rightarrow> real \<Rightarrow> real \<Rightarrow> real \<Rightarrow> real \<Rightarrow> real \<Rightarrow>
   'a grid_cells_scheme \<Rightarrow> 'a grid_cells_scheme" where
  "geographic_to_tm_sphere R k0 lon_mer FN FE lat_rad lon_rad st =
     (let Rk0 = R * k0;
          B = cos lat_rad * sin (lon_rad - lon_mer);
          st1 = st\<lparr>E_cell := FE + Rk0 * artanh B\<rparr>
      in st1\<lparr>N_cell := FN + Rk0 * arctan (tan lat_rad / cos (lon_rad - lon_mer))\<rparr>)"

definition tm_to_geographic_sphere ::
  "real \<Rightarrow> real \<Rightarrow> real \<Rightarrow> real \<Rightarrow> real \<Rightarrow> real \<Rightarrow> real \<Rightarrow>
   'a geo_cells_scheme \<Rightarrow> 'a geo_cells_scheme" where
  "tm_to_geographic_sphere R k0 lon_mer FN FE N E st =
     (let Rk0 = R * k0;
          D = (N - FN) / Rk0;
          st1 = st\<lparr>lon_cell := lon_mer + arctan (sinh ((E - FE) / Rk0) / cos D)\<rparr>
      in st1\<lparr>lat_cell := arcsin (sin D / cosh ((E - FE) / Rk0))\<rparr>)"

definition geographic_to_ps_sphere ::
  "real \<Rightarrow> real \<Rightarrow> Hemisphere \<Rightarrow> real \<Rightarrow> real \<Rightarrow> real \<Rightarrow> real \<Rightarrow>
   'a grid_cells_scheme \<Rightarrow> 'a grid_cells_scheme" where
  "geographic_to_ps_sphere R k0 hemi FN FE lat_rad lon_rad st =
     (let Rk0 = R * k0
      in if hemi = HEMI_NORTH then
           (let st1 = st\<lparr>E_cell := FE + 2 * Rk0 * tan (pi / 4 - lat_rad / 2) * sin lon_rad\<rparr>
            in st1\<lparr>N_cell := FN - 2 * Rk0 * tan (pi / 4 - lat_rad / 2) * cos lon_rad\<rparr>)
         else if hemi = HEMI_SOUTH then
           (let st1 = st\<lparr>E_cell := FE + 2 * Rk0 * tan (pi / 4 + lat_rad / 2) * sin lon_rad\<rparr>
            in st1\<lparr>N_cell := FN + 2 * Rk0 * tan (pi / 4 + lat_rad / 2) * cos lon_rad\<rparr>)
         else st)"

definition ps_to_geographic_sphere ::
  "real \<Rightarrow> real \<Rightarrow> Hemisphere \<Rightarrow> real \<Rightarrow> real \<Rightarrow> real \<Rightarrow> real \<Rightarrow>
   'a geo_cells_scheme \<Rightarrow> 'a geo_cells_scheme" where
  "ps_to_geographic_sphere R k0 hemi FN FE N E st =
     (let Rk0 = R * k0;
          x = E - FE;
          y = N - FN;
          rho = sqrt (x * x + y * y);
          c = 2 * arctan (rho / (2 * Rk0))
      in if hemi = HEMI_NORTH then
           (let st1 = st\<lparr>lat_cell := arcsin (cos c)\<rparr>
            in st1\<lparr>lon_cell := atan2 x (- y)\<rparr>)
         else if hemi = HEMI_SOUTH then
           (let st1 = st\<lparr>lat_cell := - arcsin (cos c)\<rparr>
            in st1\<lparr>lon_cell := atan2 x y\<rparr>)
         else st)"

section \<open>Transverse Mercator for an ellipsoid (Karney, Kawase)\<close>

definition poly4 :: "real \<Rightarrow> real \<Rightarrow> real \<Rightarrow> real \<Rightarrow> real \<Rightarrow> real \<Rightarrow> real" where
  "poly4 x c0 c1 c2 c3 c4 = c0 + x * (c1 + x * (c2 + x * (c3 + x * c4)))"

definition SQR :: "real \<Rightarrow> real" where
  "SQR x = x * x"

definition geographic_to_tm ::
  "real \<Rightarrow> real \<Rightarrow> real \<Rightarrow> real \<Rightarrow> real \<Rightarrow> real \<Rightarrow> real \<Rightarrow> real \<Rightarrow>
   'a grid_cells_scheme \<Rightarrow> 'a grid_cells_scheme" where
  "geographic_to_tm a e2 k0 lon_mer FN FE lat_rad lon_rad st =
     (let f = 1 - sqrt (1 - e2);
          n = f / (2 - f);
          A = a / (1 + n) * poly4 (n * n) 1 (1 / 4) (1 / 64) (1 / 256) (25 / 16384);
          a1 = poly4 n 0 (1 / 2) (- 2 / 3) (5 / 16) (41 / 180);
          a2 = poly4 n 0 0 (13 / 48) (- 3 / 5) (557 / 1440);
          a3 = poly4 n 0 0 0 (61 / 240) (- 103 / 140);
          a4 = poly4 n 0 0 0 0 (49561 / 161280);
          sin_phi = sin lat_rad;
          t_factor = 2 * sqrt n / (1 + n);
          t = sinh (artanh sin_phi - t_factor * artanh (t_factor * sin_phi));
          xi = arctan (t / cos (lon_rad - lon_mer));
          eta = artanh (sin (lon_rad - lon_mer) / sqrt (1 + t * t));
          st1 = st\<lparr>E_cell := FE + k0 * A * (eta + a1 * cos (2 * xi) * sinh (2 * eta)
                  + a2 * cos (4 * xi) * sinh (4 * eta) + a3 * cos (6 * xi) * sinh (6 * eta)
                  + a4 * cos (8 * xi) * sinh (8 * eta))\<rparr>
      in st1\<lparr>N_cell := FN + k0 * A * (xi + a1 * sin (2 * xi) * cosh (2 * eta)
                  + a2 * sin (4 * xi) * cosh (4 * eta) + a3 * sin (6 * xi) * cosh (6 * eta)
                  + a4 * sin (8 * xi) * cosh (8 * eta))\<rparr>)"

definition geographic_to_tm_with_convergence_and_scale ::
  "real \<Rightarrow> real \<Rightarrow> real \<Rightarrow> real \<Rightarrow> real \<Rightarrow> real \<Rightarrow> real \<Rightarrow> real \<Rightarrow>
   scale_cells \<Rightarrow> scale_cells" where
  "geographic_to_tm_with_convergence_and_scale a e2 k0 lon_mer FN FE lat_rad lon_rad st =
     (let f = 1 - sqrt (1 - e2);
          n = f / (2 - f);
          A = a / (1 + n) * poly4 (n * n) 1 (1 / 4) (1 / 64) (1 / 256) (25 / 16384);
          a1 = poly4 n 0 (1 / 2) (- 2 / 3) (5 / 16) (41 / 180);
          a2 = poly4 n 0 0 (13 / 48) (- 3 / 5) (557 / 1440);
          a3 = poly4 n 0 0 0 (61 / 240) (- 103 / 140);
          a4 = poly4 n 0 0 0 0 (49561 / 161280);
          sin_phi = sin lat_rad;
          t_factor = 2 * sqrt n / (1 + n);
          t = sinh (artanh sin_phi - t_factor * artanh (t_factor * sin_phi));
          xi = arctan (t / cos (lon_rad - lon_mer));
          eta = artanh (sin (lon_rad - lon_mer) / sqrt (1 + t * t));
          st1 = st\<lparr>E_cell := FE + k0 * A * (eta + a1 * cos (2 * xi) * sinh (2 * eta)
                  + a2 * cos (4 * xi) * sinh (4 * eta) + a3 * cos (6 * xi) * sinh (6 * eta)
                  + a4 * cos (8 * xi) * sinh (8 * eta))\<rparr>;
          st2 = st1\<lparr>N_cell := FN + k0 * A * (xi + a1 * sin (2 * xi) * cosh (2 * eta)
                  + a2 * sin (4 * xi) * cosh (4 * eta) + a3 * sin (6 * xi) * cosh (6 * eta)
                  + a4 * sin (8 * xi) * cosh (8 * eta))\<rparr>;
          sigma = 1 + 2 * (a1 * cos (2 * xi) * cosh (2 * eta)
                  + 2 * a2 * cos (4 * xi) * cosh (4 * eta) + 3 * a3 * cos (6 * xi) * cosh (6 * eta)
                  + 4 * a4 * cos (8 * xi) * cosh (8 * eta));
          tau = 2 * (a1 * sin (2 * xi) * sinh (2 * eta)
                  + 2 * a2 * sin (4 * xi) * sinh (4 * eta) + 3 * a3 * sin (6 * xi) * sinh (6 * eta)
                  + 4 * a4 * sin (8 * xi) * sinh (8 * eta));
          st3 = st2\<lparr>conv_cell :=
                  arctan ((tau * sqrt (1 + t * t) + sigma * t * tan (lon_rad - lon_mer)) /
                          (sigma * sqrt (1 + t * t) - tau * t * tan (lon_rad - lon_mer)))\<rparr>
      in st3\<lparr>scale_cell :=
                  k0 * A / a * sqrt ((1 + SQR ((1 - n) / (1 + n) * tan lat_rad))
                                      * (sigma * sigma + tau * tau) /
                                     (t * t + SQR (cos (lon_rad - lon_mer))))\<rparr>)"

definition tm_to_geographic ::
  "real \<Rightarrow> real \<Rightarrow> real \<Rightarrow> real \<Rightarrow> real \<Rightarrow> real \<Rightarrow> real \<Rightarrow> real \<Rightarrow>
   'a geo_cells_scheme \<Rightarrow> 'a geo_cells_scheme" where
  "tm_to_geographic a e2 k0 lon_mer FN FE N E st =
     (let f = 1 - sqrt (1 - e2);
          n = f / (2 - f);
          A = a / (1 + n) * poly4 (n * n) 1 (1 / 4) (1 / 64) (1 / 256) (25 / 16384);
          b1 = poly4 n 0 (1 / 2) (- 2 / 3) (37 / 96) (- 1 / 360);
          b2 = poly4 n 0 0 (1 / 48) (1 / 15) (- 437 / 1440);
          b3 = poly4 n 0 0 0 (17 / 480) (- 37 / 840);
          b4 = poly4 n 0 0 0 0 (4397 / 161280);
          xi = (N - FN) / (k0 * A);
          eta = (E - FE) / (k0 * A);
          xi_prime = xi - (b1 * sin (2 * xi) * cosh (2 * eta)
                  + b2 * sin (4 * xi) * cosh (4 * eta) + b3 * sin (6 * xi) * cosh (6 * eta)
                  + b4 * sin (8 * xi) * cosh (8 * eta));
          eta_prime = eta - (b1 * cos (2 * xi) * sinh (2 * eta)
                  + b2 * cos (4 * xi) * sinh (4 * eta) + b3 * cos (6 * xi) * sinh (6 * eta)
                  + b4 * cos (8 * xi) * sinh (8 * eta));
          d1 = poly4 n 0 2 (- 2 / 3) (- 2) (116 / 45);
          d2 = poly4 n 0 0 (7 / 3) (- 8 / 5) (- 227 / 45);
          d3 = poly4 n 0 0 0 (56 / 15) (- 136 / 35);
          d4 = poly4 n 0 0 0 0 (4279 / 630);
          chi = arcsin (sin xi_prime / cosh eta_prime);
          st1 = st\<lparr>lat_cell := chi + d1 * sin (2 * chi) + d2 * sin (4 * chi)
                  + d3 * sin (6 * chi) + d4 * sin (8 * chi)\<rparr>
      in st1\<lparr>lon_cell := lon_mer + arctan (sinh eta_prime / cos xi_prime)\<rparr>)"

section \<open>Transverse Mercator for an ellipsoid (DMATM 8358.2), inverse\<close>

definition TM_TO_GEOGRAPHIC_TOLERANCE_M :: real where
  "TM_TO_GEOGRAPHIC_TOLERANCE_M = 1 / 1000"

text \<open>
  The quantity \<^verbatim>\<open>T1\<close> that one pass of the loop of \<^verbatim>\<open>dmatm_tm_to_geographic\<close>
  computes from the current \<^verbatim>\<open>phi\<close>: the meridional distance \<^verbatim>\<open>S\<close> times
  \<^verbatim>\<open>k0\<close>. (The powers of \<^verbatim>\<open>n\<close> are computed once before the loop in the source.)
\<close>

definition dmatm_T1 :: "real \<Rightarrow> real \<Rightarrow> real \<Rightarrow> real \<Rightarrow> real" where
  "dmatm_T1 a n k0 phi =
     (let n2 = n * n;
          n3 = n2 * n;
          n4 = n3 * n;
          n5 = n4 * n;
          s = sin phi;
          Ap = a * (1 - n + 5 * (n2 - n3) / 4 + 81 * (n4 - n5) / 64);
          Bp = 3 * a * (n - n2 + 7 * (n3 - n4) / 8 + 55 * n5 / 64) / 2;
          Cp = 15 * a * (n2 - n3 + 3 * (n4 - n5) / 4) / 16;
          Dp = 35 * a * (n3 - n4 + 11 * n5 / 16) / 48;
          Ep = 315 * a * (n4 - n5) / 512;
          c = cos phi;
          s2phi = 2 * s * c;
          c2phi = c * c - s * s;
          s4phi = 2 * s2phi * c2phi;
          c4phi = c2phi * c2phi - s2phi * s2phi;
          s6phi = s4phi * c2phi + s2phi * c4phi;
          s8phi = 2 * s4phi * c4phi;
          S = Ap * phi - Bp * s2phi + Cp * s4phi - Dp * s6phi + Ep * s8phi
      in S * k0)"

text \<open>
  The loop \<^verbatim>\<open>while(1) { ... if(fabs(T1-y) < TOLERANCE) break; phi *= y/T1; }\<close>. It has
  no other exit, so it is a partial function: \<open>None\<close> is a run that never leaves the
  loop, \<open>Some (phi, s)\<close> are the values of \<^verbatim>\<open>phi\<close> and \<^verbatim>\<open>s\<close> at the
  \<^verbatim>\<open>break\<close>.

  A division by zero in \<^verbatim>\<open>phi *= y/T1\<close> makes \<^verbatim>\<open>phi\<close> infinite or not a number.
  From then on \<^verbatim>\<open>sin(phi)\<close>, and with it \<^verbatim>\<open>T1\<close>, is not a number in every pass, the
  comparison \<^verbatim>\<open>fabs(T1-y) < TOLERANCE\<close> is false, and the loop runs for ever.
\<close>

partial_function (option) dmatm_phi_loop ::
  "real \<Rightarrow> real \<Rightarrow> real \<Rightarrow> real \<Rightarrow> real \<Rightarrow> (real \<times> real) option" where
  "dmatm_phi_loop a n k0 y phi =
     (let s = sin phi;
          T1 = dmatm_T1 a n k0 phi
      in if fabs (T1 - y) < TM_TO_GEOGRAPHIC_TOLERANCE_M then Some (phi, s)
         else if T1 = 0 then None
         else dmatm_phi_loop a n k0 y (phi * (y / T1)))"

text \<open>
  Notions to speak about the runs of the loop: the exit test at \<^verbatim>\<open>phi\<close>, the value of
  \<^verbatim>\<open>phi\<close> after \<open>j\<close> passes that did not exit, the fact that the first \<open>j\<close>
  passes from \<^verbatim>\<open>phi\<close> do not exit and do not divide by zero, and the fact that the
  loop exits after exactly \<open>j\<close> such passes with the result \<open>r\<close>.
\<close>

definition dmatm_within_tolerance :: "real \<Rightarrow> real \<Rightarrow> real \<Rightarrow> real \<Rightarrow> real \<Rightarrow> bool" where
  "dmatm_within_tolerance a n k0 y phi \<longleftrightarrow>
     fabs (dmatm_T1 a n k0 phi - y) < TM_TO_GEOGRAPHIC_TOLERANCE_M"

fun dmatm_iterate :: "real \<Rightarrow> real \<Rightarrow> real \<Rightarrow> real \<Rightarrow> nat \<Rightarrow> real \<Rightarrow> real" where
  "dmatm_iterate a n k0 y 0 phi = phi"
| "dmatm_iterate a n k0 y (Suc j) phi =
     dmatm_iterate a n k0 y j (phi * (y / dmatm_T1 a n k0 phi))"

fun dmatm_passes :: "real \<Rightarrow> real \<Rightarrow> real \<Rightarrow> real \<Rightarrow> nat \<Rightarrow> real \<Rightarrow> bool" where
  "dmatm_passes a n k0 y 0 phi \<longleftrightarrow> True"
| "dmatm_passes a n k0 y (Suc j) phi \<longleftrightarrow>
     \<not> dmatm_within_tolerance a n k0 y phi \<and> dmatm_T1 a n k0 phi \<noteq> 0
     \<and> dmatm_passes a n k0 y j (phi * (y / dmatm_T1 a n k0 phi))"

definition dmatm_exit_after ::
  "real \<Rightarrow> real \<Rightarrow> real \<Rightarrow> real \<Rightarrow> real \<Rightarrow> real \<times> real \<Rightarrow> nat \<Rightarrow> bool" where
  "dmatm_exit_after a n k0 y phi r j \<longleftrightarrow>
     dmatm_passes a n k0 y j phi
     \<and> dmatm_within_tolerance a n k0 y (dmatm_iterate a n k0 y j phi)
     \<and> r = (dmatm_iterate a n k0 y j phi, sin (dmatm_iterate a n k0 y j phi))"

text \<open>
  \<^verbatim>\<open>dmatm_tm_to_geographic\<close>: \<open>None\<close> when the call does not return. The first
  estimate \<^verbatim>\<open>phi = y/b/k0\<close> is infinite or not a number when \<^verbatim>\<open>b\<close> or
  \<^verbatim>\<open>k0\<close> is zero, and the loop then runs for ever, as above.
\<close>

definition dmatm_tm_to_geographic ::
  "real \<Rightarrow> real \<Rightarrow> real \<Rightarrow> real \<Rightarrow> real \<Rightarrow> real \<Rightarrow> real \<Rightarrow> real \<Rightarrow>
   'a geo_cells_scheme \<Rightarrow> 'a geo_cells_scheme option" where
  "dmatm_tm_to_geographic a e2 k0 lon_mer FN FE N E st =
     (let ep2 = e2 / (1 - e2);
          f = 1 - sqrt (1 - e2);
          n = f / (2 - f);
          b = a * (1 - f);
          x = E - FE;
          y = N - FN
      in if b = 0 \<or> k0 = 0 then None
         else
           (case dmatm_phi_loop a n k0 y (y / b / k0) of
              None \<Rightarrow> None
            | Some (phi, s) \<Rightarrow>
               (let s2 = s * s;
                    nu = a / sqrt (1 - e2 * s2);
                    rho = nu / (1 - e2 * s2) * (1 - e2);
                    c = cos phi;
                    c2 = c * c;
                    t = s / c;
                    t2 = t * t;
                    t4 = t2 * t2;
                    t6 = t4 * t2;
                    nuk0 = nu * k0;
                    nuk02 = nuk0 * nuk0;
                    nuk04 = nuk02 * nuk02;
                    nuk06 = nuk04 * nuk02;
                    t_rhonuk0k0 = t / (rho * nuk0 * k0);
                    nuck0' = 1 / (nu * c * k0);
                    epc2 = ep2 * c2;
                    epc4 = epc2 * epc2;
                    epc6 = epc4 * epc2;
                    epc8 = epc6 * epc2;
                    T10 = t_rhonuk0k0 / 2;
                    T11 = t_rhonuk0k0 / nuk02
                            * (5 + 3 * t2 + epc2 - 4 * epc4 - 9 * t2 * epc2) / 24;
                    T12 = t_rhonuk0k0 / nuk04
                            * (61 + 90 * t2 + 46 * epc2 + 45 * t4 - 252 * t2 * epc2
                               - 3 * epc4 + 100 * epc6 - 66 * t2 * epc4
                               - 90 * t4 * epc2 + 88 * epc8 + 225 * t4 * epc4
                               + 84 * t2 * epc6 - 192 * t2 * epc8) / 720;
                    T13 = t_rhonuk0k0 / nuk06
                            * (1385 + 3633 * t2 + 4095 * t4 + 1575 * t6) / 40320;
                    T14 = nuck0';
                    T15 = nuck0' / nuk02 * (1 + 2 * t2 + epc2) / 6;
                    T16 = nuck0' / nuk04
                            * (5 + 6 * epc2 + 28 * t2 - 3 * epc4 + 8 * t2 * epc2
                               + 24 * t4 - 4 * epc6 + 4 * t2 * epc4 + 24 * t2 * epc6) / 120;
                    T17 = nuck0' / nuk06 * (61 + 662 * t2 + 1320 * t4 + 720 * t6) / 5040;
                    x2 = x * x;
                    x4 = x2 * x2;
                    x6 = x4 * x2;
                    x8 = x6 * x2;
                    st1 = st\<lparr>lat_cell := phi - x2 * T10 + x4 * T11 - x6 * T12 + x8 * T13\<rparr>
                in Some (st1\<lparr>lon_cell :=
                           lon_mer + x * (T14 - x2 * T15 + x4 * T16 - x6 * T17)\<rparr>))))"

section \<open>Polar stereographic for an ellipsoid\<close>

definition geographic_to_ps ::
  "real \<Rightarrow> real \<Rightarrow> real \<Rightarrow> Hemisphere \<Rightarrow> real \<Rightarrow> real \<Rightarrow> real \<Rightarrow> real \<Rightarrow>
   'a grid_cells_scheme \<Rightarrow> 'a grid_cells_scheme" where
  "geographic_to_ps a e2 k0 hemi FN FE lat_rad lon_rad st =
     (let e = sqrt e2;
          C0 = 2 * a / sqrt (1 - e2) * pow ((1 - e) / (1 + e)) (e / 2);
          s_lat = sin lat_rad;
          tanzhalf = (if hemi = HEMI_NORTH
                      then pow ((1 + e * s_lat) / (1 - e * s_lat)) (e / 2) * tan (pi / 4 - lat_rad / 2)
                      else pow ((1 - e * s_lat) / (1 + e * s_lat)) (e / 2) * tan (pi / 4 + lat_rad / 2));
          R = k0 * C0 * tanzhalf;
          st1 = st\<lparr>E_cell := FE + R * sin lon_rad\<rparr>
      in if hemi = HEMI_NORTH then st1\<lparr>N_cell := FN - R * cos lon_rad\<rparr>
         else if hemi = HEMI_SOUTH then st1\<lparr>N_cell := FN + R * cos lon_rad\<rparr>
         else st1)"

definition ps_to_geographic ::
  "real \<Rightarrow> real \<Rightarrow> real \<Rightarrow> Hemisphere \<Rightarrow> real \<Rightarrow> real \<Rightarrow> real \<Rightarrow> real \<Rightarrow>
   'a geo_cells_scheme \<Rightarrow> 'a geo_cells_scheme" where
  "ps_to_geographic a e2 k0 hemi FN FE N E st =
     (let e = sqrt e2;
          C0 = 2 * a / sqrt (1 - e2) * pow ((1 - e) / (1 + e)) (e / 2);
          e4 = e2 * e2;
          e6 = e4 * e2;
          e8 = e6 * e2;
          Abar = e2 / 2 + 5 * e4 / 24 + e6 / 12 + 13 * e8 / 360;
          Bbar = 7 * e4 / 48 + 29 * e6 / 240 + 811 * e8 / 11520;
          Cbar = 7 * e6 / 120 + 81 * e8 / 1120;
          Dbar = 4279 * e8 / 161280;
          x = E - FE;
          y = N - FN
      in if x = 0 \<and> y = 0 then
           (let st1 = st\<lparr>lon_cell := 0\<rparr>
            in if hemi = HEMI_NORTH then st1\<lparr>lat_cell := pi / 2\<rparr>
               else if hemi = HEMI_SOUTH then st1\<lparr>lat_cell := - (pi / 2)\<rparr>
               else st1)
         else
           (let st1 = (if hemi = HEMI_NORTH then st\<lparr>lon_cell := atan2 x (- y)\<rparr>
                       else if hemi = HEMI_SOUTH then st\<lparr>lon_cell := atan2 x y\<rparr>
                       else st);
                R = (if y = 0 then fabs x
                     else if x = 0 then fabs y
                     else fabs (x / sin (lon_cell st1)));
                tanzhalf = R / (k0 * C0);
                chi = pi / 2 - 2 * arctan tanzhalf;
                s2chi = sin (2 * chi);
                c2chi = cos (2 * chi);
                s4chi = 2 * s2chi * c2chi;
                c4chi = c2chi * c2chi - s2chi * s2chi;
                s6chi = s4chi * c2chi + s2chi * c4chi;
                s8chi = 2 * s4chi * c4chi;
                phi = chi + Abar * s2chi + Bbar * s4chi + Cbar * s6chi + Dbar * s8chi
            in if hemi = HEMI_NORTH then st1\<lparr>lat_cell := phi\<rparr>
               else if hemi = HEMI_SOUTH then st1\<lparr>lat_cell := - phi\<rparr>
               else st1))"

section \<open>The UTM/UPS grid\<close>

definition RAD :: "real \<Rightarrow> real" where
  "RAD x = x / 180 * pi"

definition UTM_K0 :: real where "UTM_K0 = 9996 / 10000"
definition UTM_FN_NH :: real where "UTM_FN_NH = 0"
definition UTM_FN_SH :: real where "UTM_FN_SH = 10000000"
definition UTM_FE :: real where "UTM_FE = 500000"

definition UPS_K0 :: real where "UPS_K0 = 994 / 1000"
definition UPS_FN :: real where "UPS_FN = 2000000"
definition UPS_FE :: real where "UPS_FE = 2000000"

text \<open>
  The longitude as \<^verbatim>\<open>geographic_to_grid\<close> uses it after its second statement: an
  argument outside \<open>[-180\<degree>, 180\<degree>]\<close> is wrapped.
\<close>

definition wrap_lon :: "real \<Rightarrow> real" where
  "wrap_lon lon_rad =
     (if lon_rad > RAD 180 \<or> lon_rad < RAD (- 180) then
        (let l = fmod (fmod lon_rad (RAD 360) + RAD 360) (RAD 360)
         in if l > RAD 180 then l - RAD 360 else l)
      else lon_rad)"

text \<open>
  The zone number that the UTM branch of \<^verbatim>\<open>geographic_to_grid\<close> works with, from the
  value \<open>izone\<close> of the zone cell at that point. The cast of a non-negative
  \<^verbatim>\<open>double\<close> to \<^verbatim>\<open>unsigned\<close> truncates.
\<close>

definition utm_izone :: "nat \<Rightarrow> real \<Rightarrow> real \<Rightarrow> nat" where
  "utm_izone izone lat_rad lon_rad =
     (if izone < 1 \<or> izone > 60 then
        (let iz = nat \<lfloor>(lon_rad + RAD 180) / RAD 6\<rfloor> + 1
         in if lat_rad \<ge> RAD 56 \<and> lat_rad < RAD 64 \<and> lon_rad \<ge> RAD 3 \<and> lon_rad < RAD 12
            then 32 else iz)
      else if lat_rad \<ge> RAD 72 \<and> lat_rad < RAD 84 \<and> lon_rad \<ge> RAD 0 then
        (if lon_rad < RAD 9 then 31
         else if lon_rad < RAD 21 then 33
         else if lon_rad < RAD 33 then 35
         else if lon_rad < RAD 42 then 37
         else izone)
      else izone)"

text \<open>
  The two regions that the zone selection treats apart: the part of Norway given to zone 32,
  and the part around Svalbard where the zones 31, 33, 35 and 37 are widened.
\<close>

definition in_norway_window :: "real \<Rightarrow> real \<Rightarrow> bool" where
  "in_norway_window lat_rad lon_rad \<longleftrightarrow>
     lat_rad \<ge> RAD 56 \<and> lat_rad < RAD 64 \<and> lon_rad \<ge> RAD 3 \<and> lon_rad < RAD 12"

definition in_svalbard_window :: "real \<Rightarrow> real \<Rightarrow> bool" where
  "in_svalbard_window lat_rad lon_rad \<longleftrightarrow>
     lat_rad \<ge> RAD 72 \<and> lat_rad < RAD 84 \<and> lon_rad \<ge> RAD 0 \<and> lon_rad < RAD 42"

text \<open>
  The branch of \<^verbatim>\<open>geographic_to_grid\<close> for a zone cell that holds
  \<^verbatim>\<open>UPS_NORTH\<close> or \<^verbatim>\<open>UPS_SOUTH\<close>, up to its \<^verbatim>\<open>return 1\<close>.
\<close>

definition geographic_to_grid_ups ::
  "real \<Rightarrow> real \<Rightarrow> real \<Rightarrow> real \<Rightarrow> zone_cells \<Rightarrow> zone_cells" where
  "geographic_to_grid_ups a e2 lat_rad lon_rad st =
     (let st1 = (if zone_cell st = UPS_NORTH then st\<lparr>hemi_cell := HEMI_NORTH\<rparr>
                 else st\<lparr>hemi_cell := HEMI_SOUTH\<rparr>)
      in if e2 \<noteq> 0
         then geographic_to_ps a e2 UPS_K0 (hemi_cell st1) UPS_FN UPS_FE lat_rad lon_rad st1
         else geographic_to_ps_sphere a UPS_K0 (hemi_cell st1) UPS_FN UPS_FE lat_rad lon_rad st1)"

text \<open>The rest of \<^verbatim>\<open>geographic_to_grid\<close>, from \<^verbatim>\<open>unsigned izone = (unsigned)*zone\<close> on.\<close>

definition geographic_to_grid_utm ::
  "real \<Rightarrow> real \<Rightarrow> real \<Rightarrow> real \<Rightarrow> zone_cells \<Rightarrow> zone_cells" where
  "geographic_to_grid_utm a e2 lat_rad lon_rad st =
     (let izone = utm_izone (zone_cell st) lat_rad lon_rad;
          st1 = st\<lparr>zone_cell := izone\<rparr>;
          st2 = (if hemi_cell st1 \<noteq> HEMI_NORTH \<and> hemi_cell st1 \<noteq> HEMI_SOUTH
                 then st1\<lparr>hemi_cell := (if lat_rad \<ge> 0 then HEMI_NORTH else HEMI_SOUTH)\<rparr>
                 else st1);
          lon_mer = real (izone - 1) * RAD 6 - RAD 180 + RAD 3;
          fn = (if hemi_cell st2 = HEMI_NORTH then UTM_FN_NH else UTM_FN_SH)
      in if e2 \<noteq> 0
         then geographic_to_tm a e2 UTM_K0 lon_mer fn UTM_FE lat_rad lon_rad st2
         else geographic_to_tm_sphere a UTM_K0 lon_mer fn UTM_FE lat_rad lon_rad st2)"

definition geographic_to_grid ::
  "real \<Rightarrow> real \<Rightarrow> real \<Rightarrow> real \<Rightarrow> zone_cells \<Rightarrow> int \<times> zone_cells" where
  "geographic_to_grid a e2 lat_rad lon_rad0 st =
     (if lat_rad > RAD 90 \<or> lat_rad < RAD (- 90) then (0, st)
      else
        (let lon_rad = wrap_lon lon_rad0;
             st1 = (if zone_cell st = GRID_AUTO then
                      (if lat_rad \<ge> RAD 84 then st\<lparr>zone_cell := UPS_NORTH\<rparr>
                       else if lat_rad < RAD (- 80) then st\<lparr>zone_cell := UPS_SOUTH\<rparr>
                       else st\<lparr>zone_cell := UTM_ZONE_AUTO\<rparr>)
                    else st)
         in if zone_cell st1 = UPS_NORTH \<or> zone_cell st1 = UPS_SOUTH
            then (1, geographic_to_grid_ups a e2 lat_rad lon_rad st1)
            else (1, geographic_to_grid_utm a e2 lat_rad lon_rad st1)))"

definition grid_to_geographic ::
  "real \<Rightarrow> real \<Rightarrow> GridZone \<Rightarrow> Hemisphere \<Rightarrow> real \<Rightarrow> real \<Rightarrow> geo_cells \<Rightarrow> int \<times> geo_cells" where
  "grid_to_geographic a e2 zone hemi0 N E st =
     (if zone = UPS_NORTH \<or> zone = UPS_SOUTH then
        (let hemi = (if zone = UPS_NORTH then HEMI_NORTH else HEMI_SOUTH)
         in (1, if e2 \<noteq> 0
                then ps_to_geographic a e2 UPS_K0 hemi UPS_FN UPS_FE N E st
                else ps_to_geographic_sphere a UPS_K0 hemi UPS_FN UPS_FE N E st))
      else
        (let izone = zone
         in if izone < 1 \<or> izone > 60 then (0, st)
            else if hemi0 \<noteq> HEMI_NORTH \<and> hemi0 \<noteq> HEMI_SOUTH then (0, st)
            else
              (let lon_mer = real (izone - 1) * RAD 6 - RAD 180 + RAD 3;
                   fn = (if hemi0 = HEMI_NORTH then UTM_FN_NH else UTM_FN_SH)
               in (1, if e2 \<noteq> 0
                      then tm_to_geographic a e2 UTM_K0 lon_mer fn UTM_FE N E st
                      else tm_to_geographic_sphere a UTM_K0 lon_mer fn UTM_FE N E st))))"

section \<open>Truncated power series with a remainder bound\<close>

text \<open>
  The series of the projection are compared with closed forms by computing with polynomials in
  the third flattening \<open>n\<close>, truncated after \<open>n\<^sup>4\<close>, whose coefficients are polynomials
  in a second variable \<open>w\<close> with \<open>\<bar>w\<bar> \<le> 1\<close> (the cosine of twice the latitude). A
  polynomial is the list of its coefficients, lowest degree first: \<open>pv\<close> evaluates a
  polynomial in \<open>w\<close>, \<open>pn\<close> bounds it by the sum of the absolute values of its
  coefficients, \<open>bv\<close> evaluates a polynomial in \<open>n\<close> with such coefficients and
  \<open>bn\<close> bounds it for \<open>0 \<le> n \<le> nmax\<close>. A model \<open>(P, e)\<close> of a number \<open>x\<close>
  says that \<open>x\<close> differs from the value of \<open>P\<close> by at most \<open>e * n\<^sup>5\<close>.
\<close>

fun pv :: "real list \<Rightarrow> real \<Rightarrow> real" where
  "pv [] x = 0"
| "pv (c # cs) x = c + x * pv cs x"







fun bv :: "real list list \<Rightarrow> real \<Rightarrow> real \<Rightarrow> real" where
  "bv [] w n = 0"
| "bv (c # cs) w n = pv c w + n * bv cs w n"





type_synonym tmodel = "real list list \<times> real"

definition tm :: "real \<Rightarrow> tmodel \<Rightarrow> real \<Rightarrow> real \<Rightarrow> bool" where
  "tm x T w n \<longleftrightarrow> 0 \<le> snd T \<and> \<bar>x - bv (fst T) w n\<bar> \<le> snd T * n ^ 5"




section \<open>Degrees and radians\<close>

lemma RAD_less_iff: "RAD x < RAD y \<longleftrightarrow> x < y"
  by (simp add: RAD_def divide_less_cancel)

lemma RAD_le_iff: "RAD x \<le> RAD y \<longleftrightarrow> x \<le> y"
  by (simp add: RAD_def divide_le_cancel)

lemma RAD_0: "RAD 0 = 0"
  by (simp add: RAD_def)

lemma RAD_pos_iff: "0 < RAD x \<longleftrightarrow> 0 < x"
  using RAD_less_iff [of 0 x] by (simp add: RAD_0)

lemma RAD_neg_iff: "RAD x < 0 \<longleftrightarrow> x < 0"
  using RAD_less_iff [of x 0] by (simp add: RAD_0)

lemma RAD_nonneg_iff: "0 \<le> RAD x \<longleftrightarrow> 0 \<le> x"
  using RAD_le_iff [of 0 x] by (simp add: RAD_0)

lemma RAD_nonpos_iff: "RAD x \<le> 0 \<longleftrightarrow> x \<le> 0"
  using RAD_le_iff [of x 0] by (simp add: RAD_0)

lemma RAD_add: "RAD x + RAD y = RAD (x + y)"
  by (simp add: RAD_def add_divide_distrib distrib_right)

lemma RAD_diff: "RAD x - RAD y = RAD (x - y)"
  by (simp add: RAD_def diff_divide_distrib left_diff_distrib)

lemma RAD_div: "RAD x / RAD y = x / y"
  by (simp add: RAD_def)

lemma RAD_mult: "c * RAD x = RAD (c * x)"
  by (simp add: RAD_def)

lemmas RAD_simps = RAD_less_iff RAD_le_iff RAD_pos_iff RAD_neg_iff RAD_nonneg_iff RAD_nonpos_iff
  RAD_add RAD_diff RAD_div RAD_mult

lemmas zone_defs = GRID_AUTO_def UPS_NORTH_def UPS_SOUTH_def UTM_ZONE_AUTO_def

section \<open>The zone and hemisphere cells along \<^verbatim>\<open>geographic_to_grid\<close>\<close>

text \<open>The projections assign the northing and easting cells only.\<close>

lemma tm_keeps_zone_cells:
  "zone_cell (geographic_to_tm a e2 k0 lon_mer FN FE lat lon st) = zone_cell st"
  "hemi_cell (geographic_to_tm a e2 k0 lon_mer FN FE lat lon st) = hemi_cell st"
  "zone_cell (geographic_to_tm_sphere a k0 lon_mer FN FE lat lon st) = zone_cell st"
  "hemi_cell (geographic_to_tm_sphere a k0 lon_mer FN FE lat lon st) = hemi_cell st"
  by (simp_all add: geographic_to_tm_def geographic_to_tm_sphere_def Let_def)

lemma ps_keeps_zone_cells:
  "zone_cell (geographic_to_ps a e2 k0 h FN FE lat lon st) = zone_cell st"
  "hemi_cell (geographic_to_ps a e2 k0 h FN FE lat lon st) = hemi_cell st"
  "zone_cell (geographic_to_ps_sphere a k0 h FN FE lat lon st) = zone_cell st"
  "hemi_cell (geographic_to_ps_sphere a k0 h FN FE lat lon st) = hemi_cell st"
  by (simp_all add: geographic_to_ps_def geographic_to_ps_sphere_def Let_def)

lemma utm_branch_cells:
  "zone_cell (geographic_to_grid_utm a e2 lat lon st) = utm_izone (zone_cell st) lat lon"
  "hemi_cell (geographic_to_grid_utm a e2 lat lon st)
     = (if hemi_cell st \<noteq> HEMI_NORTH \<and> hemi_cell st \<noteq> HEMI_SOUTH
        then (if lat \<ge> 0 then HEMI_NORTH else HEMI_SOUTH) else hemi_cell st)"
  by (simp_all add: geographic_to_grid_utm_def Let_def tm_keeps_zone_cells)

lemma ups_branch_cells:
  "zone_cell (geographic_to_grid_ups a e2 lat lon st) = zone_cell st"
  "hemi_cell (geographic_to_grid_ups a e2 lat lon st)
     = (if zone_cell st = UPS_NORTH then HEMI_NORTH else HEMI_SOUTH)"
  by (simp_all add: geographic_to_grid_ups_def Let_def ps_keeps_zone_cells)

section \<open>Claims about \<^verbatim>\<open>geographic_to_grid\<close>\<close>

subsection \<open>An automatic zone\<close>

text \<open>
  The wrapped longitude lies in \<open>(-180\<degree>, 180\<degree>]\<close> (a longitude of exactly -180\<degree> is
  not wrapped); below 180\<degree> the automatic zone number is in 1..60. With the request
  \<^verbatim>\<open>GRID_AUTO\<close> the latitude selects the branch: UPS north from 84\<degree>, UPS south below
  -80\<degree>, and the automatic UTM zone between.
\<close>

lemma fmod_nonneg:
  assumes "0 < y" and "0 \<le> x"
  shows "0 \<le> fmod x y \<and> fmod x y < y"
proof -
  from assms have q: "0 \<le> x / y"
    by simp
  have "of_int \<lfloor>x / y\<rfloor> * y \<le> x"
    using assms(1) by (rule floor_divide_lower)
  moreover have "x < (of_int \<lfloor>x / y\<rfloor> + 1) * y"
    using assms(1) by (rule floor_divide_upper)
  ultimately show ?thesis
    using q by (simp add: fmod_def algebra_simps)
qed

lemma fmod_gt_minus:
  assumes "0 < y"
  shows "- y < fmod x y"
proof (cases "0 \<le> x / y")
  case True
  with assms have "0 \<le> x"
    by (simp add: zero_le_divide_iff)
  with assms fmod_nonneg [of y x] show ?thesis
    by linarith
next
  case False
  have "(of_int \<lceil>x / y\<rceil> - 1) * y < x"
    using assms by (rule ceiling_divide_lower)
  with False show ?thesis
    by (simp add: fmod_def algebra_simps)
qed

lemma wrap_lon_range: "RAD (- 180) < wrap_lon l \<or> wrap_lon l = l" "wrap_lon l \<le> RAD 180"
proof -
  have p: "0 < RAD 360"
    by (simp add: RAD_pos_iff)
  have half: "RAD 180 - RAD 360 = RAD (- 180)" "RAD 360 = 2 * RAD 180"
    by (simp_all add: RAD_def)
  let ?m = "fmod l (RAD 360) + RAD 360"
  from fmod_gt_minus [OF p, of l] have "0 \<le> ?m"
    by simp
  from fmod_nonneg [OF p this] have r: "0 \<le> fmod ?m (RAD 360)" "fmod ?m (RAD 360) < RAD 360"
    by simp_all
  have z: "RAD (- 180) < 0"
    by (simp add: RAD_neg_iff)
  show "RAD (- 180) < wrap_lon l \<or> wrap_lon l = l"
    using r z half by (auto simp add: wrap_lon_def Let_def)
  show "wrap_lon l \<le> RAD 180"
    using r half by (auto simp add: wrap_lon_def Let_def)
qed

lemma auto_zone_in_1_60:
  assumes "RAD (- 180) \<le> l" and "l < RAD 180"
  shows "1 \<le> utm_izone UTM_ZONE_AUTO lat l \<and> utm_izone UTM_ZONE_AUTO lat l \<le> 60"
proof -
  have eq: "(l + RAD 180) / RAD 6 = 30 * l / pi + 30"
    by (simp add: RAD_def field_simps)
  from assms(1) have "- pi \<le> l"
    by (simp add: RAD_def)
  then have lo: "0 \<le> 30 * l / pi + 30"
    by (simp add: field_simps)
  from assms(2) have "l < pi"
    by (simp add: RAD_def)
  then have hi: "30 * l / pi + 30 < 60"
    by (simp add: field_simps)
  from lo have "0 \<le> \<lfloor>30 * l / pi + 30\<rfloor>"
    by (simp only: zero_le_floor)
  moreover from hi have "\<lfloor>30 * l / pi + 30\<rfloor> < 60"
    by (subst floor_less_iff) simp
  ultimately have "nat \<lfloor>(l + RAD 180) / RAD 6\<rfloor> + 1 \<le> 60"
    unfolding eq by linarith
  then show ?thesis
    by (simp add: utm_izone_def UTM_ZONE_AUTO_def Let_def)
qed

lemma geographic_to_grid_auto:
  assumes "RAD (- 90) \<le> lat_rad" and "lat_rad \<le> RAD 90"
  shows "geographic_to_grid a e2 lat_rad lon_rad (st\<lparr>zone_cell := GRID_AUTO\<rparr>)
     = (1, if lat_rad \<ge> RAD 84
           then geographic_to_grid_ups a e2 lat_rad (wrap_lon lon_rad) (st\<lparr>zone_cell := UPS_NORTH\<rparr>)
           else if lat_rad < RAD (- 80)
           then geographic_to_grid_ups a e2 lat_rad (wrap_lon lon_rad) (st\<lparr>zone_cell := UPS_SOUTH\<rparr>)
           else geographic_to_grid_utm a e2 lat_rad (wrap_lon lon_rad)
                  (st\<lparr>zone_cell := UTM_ZONE_AUTO\<rparr>))"
  using assms by (simp add: geographic_to_grid_def zone_defs Let_def not_less [symmetric])


text \<open>
  Claim C1 says that with the request \<^verbatim>\<open>GRID_AUTO\<close>, a latitude in \<open>[72\<degree>, 84\<degree>)\<close> and
  a longitude in \<open>[0\<degree>, 42\<degree>)\<close> the zone is 31, 33, 35 or 37 (Svalbard). In the current
  \<^verbatim>\<open>geographic_to_grid\<close> the Svalbard test is the \<^verbatim>\<open>else\<close> of the test
  \<^verbatim>\<open>(izone<1)||(izone>60)\<close>, so it is reached for an explicit zone only: at 75\<degree>N 10\<degree>E
  the request \<^verbatim>\<open>GRID_AUTO\<close> gives zone 32 where the claim says 33, and an explicit request
  for zone 10 gives 33.
\<close>

theorem svalbard_auto_gives_zone_32:
  "zone_cell (snd (geographic_to_grid a e2 (RAD 75) (RAD 10)
     \<lparr>N_cell = n0, E_cell = e0, zone_cell = GRID_AUTO, hemi_cell = HEMI_AUTO\<rparr>)) = 32
   \<and> zone_cell (snd (geographic_to_grid a e2 (RAD 75) (RAD 10)
     \<lparr>N_cell = n0, E_cell = e0, zone_cell = 10, hemi_cell = HEMI_AUTO\<rparr>)) = 33"
  by (simp add: geographic_to_grid_def wrap_lon_def utm_izone_def RAD_simps zone_defs Let_def
      utm_branch_cells)

subsection \<open>An explicit zone\<close>

lemma utm_izone_explicit:
  "1 \<le> z \<Longrightarrow> z \<le> 60 \<Longrightarrow> \<not> in_svalbard_window lat lon \<Longrightarrow> utm_izone z lat lon = z"
proof -
  have "RAD 9 < RAD 21" "RAD 21 < RAD 33" "RAD 33 < RAD 42"
    by (simp_all add: RAD_less_iff)
  then show "1 \<le> z \<Longrightarrow> z \<le> 60 \<Longrightarrow> \<not> in_svalbard_window lat lon \<Longrightarrow> utm_izone z lat lon = z"
    by (auto simp add: utm_izone_def in_svalbard_window_def)
qed

lemma zone_of_longitude:
  assumes "RAD (real z * 6 - 186) < l" and "l < RAD (real z * 6 - 180)" and "1 \<le> z"
  shows "nat \<lfloor>(l + RAD 180) / RAD 6\<rfloor> + 1 = z"
proof -
  have eq: "(l + RAD 180) / RAD 6 = 30 * l / pi + 30"
    by (simp add: RAD_def field_simps)
  from assms(1) have "(real z * 6 - 186) * pi < 180 * l"
    by (simp add: RAD_def field_simps)
  then have "(real z - 31) * pi < 30 * l"
    by (simp add: algebra_simps)
  then have lo: "real z - 31 < 30 * l / pi"
    by (simp add: field_simps)
  from assms(2) have "180 * l < (real z * 6 - 180) * pi"
    by (simp add: RAD_def field_simps)
  then have "30 * l < (real z - 30) * pi"
    by (simp add: algebra_simps)
  then have hi: "30 * l / pi < real z - 30"
    by (simp add: field_simps)
  have "\<lfloor>(l + RAD 180) / RAD 6\<rfloor> = int z - 1"
    unfolding eq using lo hi by (intro floor_unique) simp_all
  with assms(3) show ?thesis by simp
qed

lemma utm_izone_auto:
  assumes "RAD (real z * 6 - 186) < l" and "l < RAD (real z * 6 - 180)" and "1 \<le> z"
    and "in_norway_window lat l \<longrightarrow> z = 32"
  shows "utm_izone UTM_ZONE_AUTO lat l = z"
  using assms zone_of_longitude [OF assms(1-3)]
  by (auto simp add: utm_izone_def in_norway_window_def UTM_ZONE_AUTO_def Let_def)


lemma g2g_explicit_utm:
  assumes "1 \<le> z" and "z \<le> 60" and "RAD (- 90) \<le> lat_rad" and "lat_rad \<le> RAD 90"
  shows "geographic_to_grid a e2 lat_rad lon_rad (st\<lparr>zone_cell := z\<rparr>)
           = (1, geographic_to_grid_utm a e2 lat_rad (wrap_lon lon_rad) (st\<lparr>zone_cell := z\<rparr>))"
  using assms by (simp add: geographic_to_grid_def zone_defs Let_def not_less [symmetric])

lemma g2g_auto_utm:
  assumes "RAD (- 80) \<le> lat_rad" and "lat_rad < RAD 84"
  shows "geographic_to_grid a e2 lat_rad lon_rad (st\<lparr>zone_cell := GRID_AUTO\<rparr>)
           = (1, geographic_to_grid_utm a e2 lat_rad (wrap_lon lon_rad)
                   (st\<lparr>zone_cell := UTM_ZONE_AUTO\<rparr>))"
proof -
  have "RAD (- 90) \<le> RAD (- 80)" "RAD 84 \<le> RAD 90"
    by (simp_all add: RAD_le_iff)
  with assms have "RAD (- 90) \<le> lat_rad" "lat_rad \<le> RAD 90"
    by linarith+
  with assms show ?thesis
    by (simp add: geographic_to_grid_def zone_defs Let_def not_less [symmetric])
qed

lemma utm_branch_same_zone:
  assumes "utm_izone z1 lat_rad lon_rad = utm_izone z2 lat_rad lon_rad"
  shows "geographic_to_grid_utm a e2 lat_rad lon_rad (st\<lparr>zone_cell := z1\<rparr>)
           = geographic_to_grid_utm a e2 lat_rad lon_rad (st\<lparr>zone_cell := z2\<rparr>)"
  using assms by (simp add: geographic_to_grid_utm_def Let_def)

lemma utm_branch_unfold:
  "geographic_to_grid_utm a e2 lat_rad lon_rad st
     = (let izone = utm_izone (zone_cell st) lat_rad lon_rad;
            h = (if hemi_cell st = HEMI_AUTO
                 then (if lat_rad \<ge> 0 then HEMI_NORTH else HEMI_SOUTH)
                 else hemi_cell st);
            lon_mer = real (izone - 1) * RAD 6 - RAD 180 + RAD 3;
            fn = (if h = HEMI_NORTH then UTM_FN_NH else UTM_FN_SH);
            st' = st\<lparr>zone_cell := izone, hemi_cell := h\<rparr>
        in if e2 \<noteq> 0
           then geographic_to_tm a e2 UTM_K0 lon_mer fn UTM_FE lat_rad lon_rad st'
           else geographic_to_tm_sphere a UTM_K0 lon_mer fn UTM_FE lat_rad lon_rad st')"
proof -
  obtain n0 e0 z0 h0 where st:
    "st = \<lparr>N_cell = n0, E_cell = e0, zone_cell = z0, hemi_cell = h0\<rparr>"
    by (cases st)
  show ?thesis
    unfolding st by (cases h0) (simp_all add: geographic_to_grid_utm_def Let_def)
qed

lemma tm_E_on_meridian:
  "E_cell (geographic_to_tm a e2 k0 lon_mer FN FE lat_rad lon_mer st) = FE"
  by (simp add: geographic_to_tm_def Let_def)

lemma ps_north_E_lower_bound:
  assumes "0 \<le> a" and "e2 \<le> 1" and "0 \<le> k0"
    and "0 \<le> tan (pi / 4 - lat_rad / 2)" and "0 \<le> sin lon_rad"
  shows "FE \<le> E_cell (geographic_to_ps a e2 k0 HEMI_NORTH FN FE lat_rad lon_rad st)"
proof -
  let ?e = "sqrt e2"
  let ?C0 = "2 * a / sqrt (1 - e2) * pow ((1 - ?e) / (1 + ?e)) (?e / 2)"
  let ?tz = "pow ((1 + ?e * sin lat_rad) / (1 - ?e * sin lat_rad)) (?e / 2)
               * tan (pi / 4 - lat_rad / 2)"
  from assms(2) have "0 \<le> sqrt (1 - e2)"
    by simp
  with assms(1) have "0 \<le> 2 * a / sqrt (1 - e2)"
    by simp
  moreover have "0 \<le> pow ((1 - ?e) / (1 + ?e)) (?e / 2)"
    by (simp add: pow_def)
  ultimately have C0: "0 \<le> ?C0"
    by (rule mult_nonneg_nonneg)
  have "0 \<le> pow ((1 + ?e * sin lat_rad) / (1 - ?e * sin lat_rad)) (?e / 2)"
    by (simp add: pow_def)
  then have tz: "0 \<le> ?tz"
    using assms(4) by (rule mult_nonneg_nonneg)
  from assms(3) C0 have "0 \<le> k0 * ?C0"
    by (rule mult_nonneg_nonneg)
  then have "0 \<le> k0 * ?C0 * ?tz"
    using tz by (rule mult_nonneg_nonneg)
  then have "0 \<le> k0 * ?C0 * ?tz * sin lon_rad"
    using assms(5) by (rule mult_nonneg_nonneg)
  then show ?thesis
    by (simp add: geographic_to_ps_def Let_def)
qed

text \<open>
  Claim C2 says that an explicit zone \<open>z\<close> in 1..60 is projected about the central
  meridian of \<open>z\<close> and returned unchanged, for every latitude in range, and that for a
  point strictly inside the span of \<open>z\<close> the requests \<open>z\<close> and \<^verbatim>\<open>GRID_AUTO\<close>
  give the same northing and easting. The second part fails where \<^verbatim>\<open>GRID_AUTO\<close>
  selects another grid on purpose: at 85\<degree>N 3\<degree>E, inside the span of zone 31, the request
  31 gives the easting 500000 (the point is on the central meridian) and
  \<^verbatim>\<open>GRID_AUTO\<close>, which selects UPS north, an easting of at least 2000000.
\<close>

theorem explicit_zone_differs_from_auto_at_85N:
  "E_cell (snd (geographic_to_grid 6378137 (669437999 / 100000000000) (RAD 85) (RAD 3)
       \<lparr>N_cell = 0, E_cell = 0, zone_cell = 31, hemi_cell = HEMI_AUTO\<rparr>)) = 500000
   \<and> 2000000 \<le> E_cell (snd (geographic_to_grid 6378137 (669437999 / 100000000000)
       (RAD 85) (RAD 3)
       \<lparr>N_cell = 0, E_cell = 0, zone_cell = GRID_AUTO, hemi_cell = HEMI_AUTO\<rparr>))
   \<and> E_cell (snd (geographic_to_grid 6378137 (669437999 / 100000000000) (RAD 85) (RAD 3)
       \<lparr>N_cell = 0, E_cell = 0, zone_cell = 31, hemi_cell = HEMI_AUTO\<rparr>))
     \<noteq> E_cell (snd (geographic_to_grid 6378137 (669437999 / 100000000000) (RAD 85) (RAD 3)
       \<lparr>N_cell = 0, E_cell = 0, zone_cell = GRID_AUTO, hemi_cell = HEMI_AUTO\<rparr>))"
proof -
  let ?e2 = "669437999 / 100000000000 :: real"
  have w: "wrap_lon (RAD 3) = RAD 3"
    by (simp add: wrap_lon_def RAD_simps)
  have cm: "real (31 - 1) * RAD 6 - RAD 180 + RAD 3 = RAD 3"
    by (simp add: RAD_def)
  have explicit: "E_cell (snd (geographic_to_grid 6378137 ?e2 (RAD 85) (RAD 3)
       \<lparr>N_cell = 0, E_cell = 0, zone_cell = 31, hemi_cell = HEMI_AUTO\<rparr>)) = 500000"
    by (simp add: geographic_to_grid_def geographic_to_grid_utm_def utm_izone_def w cm
        RAD_simps zone_defs Let_def tm_E_on_meridian UTM_FE_def)
  have angle: "pi / 4 - RAD 85 / 2 = pi / 72"
    by (simp add: RAD_def)
  have "0 < tan (pi / 72)"
    by (rule tan_gt_zero) simp_all
  then have tan: "0 \<le> tan (pi / 4 - RAD 85 / 2)"
    unfolding angle by (rule less_imp_le)
  have "0 < sin (RAD 3)"
    by (rule sin_gt_zero) (simp_all add: RAD_def)
  then have sin: "0 \<le> sin (RAD 3)"
    by simp
  have "UPS_FE \<le> E_cell (geographic_to_ps 6378137 ?e2 UPS_K0 HEMI_NORTH UPS_FN UPS_FE
      (RAD 85) (RAD 3) st)" for st :: zone_cells
    by (rule ps_north_E_lower_bound [OF _ _ _ tan sin]) (simp_all add: UPS_K0_def)
  then have auto: "2000000 \<le> E_cell (snd (geographic_to_grid 6378137 ?e2 (RAD 85) (RAD 3)
       \<lparr>N_cell = 0, E_cell = 0, zone_cell = GRID_AUTO, hemi_cell = HEMI_AUTO\<rparr>))"
    by (simp add: geographic_to_grid_def geographic_to_grid_ups_def w
        RAD_simps zone_defs Let_def UPS_FE_def)
  from explicit auto show ?thesis
    by simp
qed

text \<open>
  Claim C2 as amended: for an explicit zone \<open>z\<close> in 1..60 and a latitude in range, at a
  point outside the Svalbard window (latitude in \<open>[72\<degree>, 84\<degree>)\<close>, wrapped longitude in
  \<open>[0\<degree>, 42\<degree>)\<close>) the Transverse Mercator projection is taken about the meridian
  \<open>(z - 1) \<cdot> 6\<degree> - 180\<degree> + 3\<degree>\<close> and the zone cell holds \<open>z\<close> on return; if moreover
  the latitude is in \<open>[-80\<degree>, 84\<degree>)\<close>, the wrapped longitude lies strictly inside the
  span of \<open>z\<close>, and the point is not in the Norway window unless \<open>z = 32\<close>, then the
  request \<^verbatim>\<open>GRID_AUTO\<close> returns the same northing, easting, zone and hemisphere.
\<close>

theorem explicit_zone_outside_svalbard:
  assumes "1 \<le> z" and "z \<le> 60" and "RAD (- 90) \<le> lat_rad" and "lat_rad \<le> RAD 90"
    and "\<not> in_svalbard_window lat_rad (wrap_lon lon_rad)"
  shows
    "geographic_to_grid a e2 lat_rad lon_rad (st\<lparr>zone_cell := z\<rparr>)
       = (1, let h = (if hemi_cell st = HEMI_AUTO
                      then (if lat_rad \<ge> 0 then HEMI_NORTH else HEMI_SOUTH)
                      else hemi_cell st);
                 lon_mer = real (z - 1) * RAD 6 - RAD 180 + RAD 3;
                 fn = (if h = HEMI_NORTH then UTM_FN_NH else UTM_FN_SH);
                 st' = st\<lparr>zone_cell := z, hemi_cell := h\<rparr>
             in if e2 \<noteq> 0
                then geographic_to_tm a e2 UTM_K0 lon_mer fn UTM_FE lat_rad (wrap_lon lon_rad) st'
                else geographic_to_tm_sphere a UTM_K0 lon_mer fn UTM_FE
                       lat_rad (wrap_lon lon_rad) st')
     \<and> real (z - 1) * RAD 6 - RAD 180 + RAD 3 = RAD (real (z - 1) * 6 - 180 + 3)
     \<and> zone_cell (snd (geographic_to_grid a e2 lat_rad lon_rad (st\<lparr>zone_cell := z\<rparr>))) = z
     \<and> (RAD (- 80) \<le> lat_rad \<and> lat_rad < RAD 84
          \<and> RAD (real (z - 1) * 6 - 180) < wrap_lon lon_rad
          \<and> wrap_lon lon_rad < RAD (real z * 6 - 180)
          \<and> (in_norway_window lat_rad (wrap_lon lon_rad) \<longrightarrow> z = 32)
        \<longrightarrow> geographic_to_grid a e2 lat_rad lon_rad (st\<lparr>zone_cell := GRID_AUTO\<rparr>)
              = geographic_to_grid a e2 lat_rad lon_rad (st\<lparr>zone_cell := z\<rparr>))"
proof -
  let ?l = "wrap_lon lon_rad"
  have iz: "utm_izone z lat_rad ?l = z"
    using assms(1,2,5) by (rule utm_izone_explicit)
  have call: "geographic_to_grid a e2 lat_rad lon_rad (st\<lparr>zone_cell := z\<rparr>)
      = (1, geographic_to_grid_utm a e2 lat_rad ?l (st\<lparr>zone_cell := z\<rparr>))"
    using assms(1-4) by (rule g2g_explicit_utm)
  have first: "geographic_to_grid a e2 lat_rad lon_rad (st\<lparr>zone_cell := z\<rparr>)
       = (1, let h = (if hemi_cell st = HEMI_AUTO
                      then (if lat_rad \<ge> 0 then HEMI_NORTH else HEMI_SOUTH)
                      else hemi_cell st);
                 lon_mer = real (z - 1) * RAD 6 - RAD 180 + RAD 3;
                 fn = (if h = HEMI_NORTH then UTM_FN_NH else UTM_FN_SH);
                 st' = st\<lparr>zone_cell := z, hemi_cell := h\<rparr>
             in if e2 \<noteq> 0
                then geographic_to_tm a e2 UTM_K0 lon_mer fn UTM_FE lat_rad ?l st'
                else geographic_to_tm_sphere a UTM_K0 lon_mer fn UTM_FE lat_rad ?l st')"
    unfolding call utm_branch_unfold by (simp add: Let_def iz)
  have cm: "real (z - 1) * RAD 6 - RAD 180 + RAD 3 = RAD (real (z - 1) * 6 - 180 + 3)"
    by (simp add: RAD_def field_simps)
  have second: "zone_cell (snd (geographic_to_grid a e2 lat_rad lon_rad (st\<lparr>zone_cell := z\<rparr>))) = z"
    unfolding call by (simp add: utm_branch_cells iz)
  have third: "geographic_to_grid a e2 lat_rad lon_rad (st\<lparr>zone_cell := GRID_AUTO\<rparr>)
              = geographic_to_grid a e2 lat_rad lon_rad (st\<lparr>zone_cell := z\<rparr>)"
    if mid: "RAD (- 80) \<le> lat_rad" "lat_rad < RAD 84"
      and span: "RAD (real (z - 1) * 6 - 180) < ?l" "?l < RAD (real z * 6 - 180)"
      and norway: "in_norway_window lat_rad ?l \<longrightarrow> z = 32"
  proof -
    from assms(1) have "real (z - 1) * 6 - 180 = real z * 6 - 186"
      by simp
    with span(1) have lo: "RAD (real z * 6 - 186) < ?l"
      by simp
    have "utm_izone UTM_ZONE_AUTO lat_rad ?l = z"
      using lo span(2) assms(1) norway by (rule utm_izone_auto)
    then have "utm_izone UTM_ZONE_AUTO lat_rad ?l = utm_izone z lat_rad ?l"
      by (simp add: iz)
    then have "geographic_to_grid_utm a e2 lat_rad ?l (st\<lparr>zone_cell := UTM_ZONE_AUTO\<rparr>)
        = geographic_to_grid_utm a e2 lat_rad ?l (st\<lparr>zone_cell := z\<rparr>)"
      by (rule utm_branch_same_zone)
    then show ?thesis
      unfolding call g2g_auto_utm [OF mid] by simp
  qed
  from first cm second third show ?thesis by blast
qed

theorem explicit_zone_outside_svalbard_witness:
  "geographic_to_grid 6378137 (669437999 / 100000000000) (RAD 32) (RAD (- 117))
       \<lparr>N_cell = 0, E_cell = 0, zone_cell = GRID_AUTO, hemi_cell = HEMI_AUTO\<rparr>
     = geographic_to_grid 6378137 (669437999 / 100000000000) (RAD 32) (RAD (- 117))
       \<lparr>N_cell = 0, E_cell = 0, zone_cell = 11, hemi_cell = HEMI_AUTO\<rparr>
   \<and> geographic_to_grid 6378137 (669437999 / 100000000000) (RAD 32) (RAD (- 117))
       \<lparr>N_cell = 0, E_cell = 0, zone_cell = 11, hemi_cell = HEMI_AUTO\<rparr>
     = (1, geographic_to_tm 6378137 (669437999 / 100000000000) UTM_K0 (RAD (- 117))
             UTM_FN_NH UTM_FE (RAD 32) (RAD (- 117))
             \<lparr>N_cell = 0, E_cell = 0, zone_cell = 11, hemi_cell = HEMI_NORTH\<rparr>)"
proof -
  have w: "wrap_lon (RAD (- 117)) = RAD (- 117)"
    by (simp add: wrap_lon_def RAD_simps)
  have hyps: "(1::nat) \<le> 11" "(11::nat) \<le> 60" "RAD (- 90) \<le> RAD 32" "RAD 32 \<le> RAD 90"
    "\<not> in_svalbard_window (RAD 32) (wrap_lon (RAD (- 117)))"
    by (simp_all add: w in_svalbard_window_def RAD_simps)
  have more: "RAD (- 80) \<le> RAD 32" "RAD 32 < RAD 84"
    "RAD (real (11 - 1) * 6 - 180) < wrap_lon (RAD (- 117))"
    "wrap_lon (RAD (- 117)) < RAD (real 11 * 6 - 180)"
    "in_norway_window (RAD 32) (wrap_lon (RAD (- 117))) \<longrightarrow> (11::nat) = 32"
    by (simp_all add: w in_norway_window_def RAD_simps)
  have cm: "real (11 - 1) * RAD 6 - RAD 180 + RAD 3 = RAD (- 117)"
    by (simp add: RAD_def)
  show ?thesis
    using explicit_zone_outside_svalbard [OF hyps, of 6378137 "669437999 / 100000000000"
        "\<lparr>N_cell = 0, E_cell = 0, zone_cell = GRID_AUTO, hemi_cell = HEMI_AUTO\<rparr>"] more
    by (simp add: w cm Let_def RAD_simps UTM_FN_NH_def)
qed


text \<open>
  Claim C4 says that with the request \<^verbatim>\<open>GRID_AUTO\<close> or \<^verbatim>\<open>UTM_ZONE_AUTO\<close> the zone
  returned is a UTM zone in 1..60, or a UPS marker when the polar projection was applied,
  also at the longitude 180\<degree>. At the equator and 180\<degree>E the code computes the zone number 61,
  which is the value of \<^verbatim>\<open>UPS_NORTH\<close>, and projects with the Transverse Mercator
  projection about the meridian 183\<degree>.
\<close>

theorem auto_zone_at_180_is_61:
  "geographic_to_grid a e2 0 (RAD 180)
     \<lparr>N_cell = n0, E_cell = e0, zone_cell = GRID_AUTO, hemi_cell = HEMI_AUTO\<rparr>
   = (1, if e2 \<noteq> 0
         then geographic_to_tm a e2 UTM_K0 (RAD 183) UTM_FN_NH UTM_FE 0 (RAD 180)
                \<lparr>N_cell = n0, E_cell = e0, zone_cell = UPS_NORTH, hemi_cell = HEMI_NORTH\<rparr>
         else geographic_to_tm_sphere a UTM_K0 (RAD 183) UTM_FN_NH UTM_FE 0 (RAD 180)
                \<lparr>N_cell = n0, E_cell = e0, zone_cell = UPS_NORTH, hemi_cell = HEMI_NORTH\<rparr>)
   \<and> zone_cell (snd (geographic_to_grid a e2 0 (RAD 180)
     \<lparr>N_cell = n0, E_cell = e0, zone_cell = UTM_ZONE_AUTO, hemi_cell = HEMI_AUTO\<rparr>)) = 61"
  by (simp add: geographic_to_grid_def geographic_to_grid_utm_def wrap_lon_def utm_izone_def
      RAD_simps zone_defs Let_def tm_keeps_zone_cells)

text \<open>
  Claim C5: \<^verbatim>\<open>geographic_to_grid\<close> returns 0 exactly when the latitude is above 90\<degree>
  or below -90\<degree>; it then leaves the four cells as they were; for every other latitude,
  whatever the longitude and the zone and hemisphere requests, it returns 1.
\<close>

theorem geographic_to_grid_fails_iff_latitude_out_of_range:
  "(fst (geographic_to_grid a e2 lat_rad lon_rad st) = 0
      \<longleftrightarrow> lat_rad > RAD 90 \<or> lat_rad < RAD (- 90))
   \<and> (fst (geographic_to_grid a e2 lat_rad lon_rad st) = 0
      \<longrightarrow> snd (geographic_to_grid a e2 lat_rad lon_rad st) = st)
   \<and> (RAD (- 90) \<le> lat_rad \<and> lat_rad \<le> RAD 90
      \<longrightarrow> fst (geographic_to_grid a e2 lat_rad lon_rad st) = 1)"
  by (auto simp add: geographic_to_grid_def Let_def)

theorem geographic_to_grid_fails_iff_latitude_out_of_range_witness:
  "RAD 91 > RAD 90
   \<and> geographic_to_grid 6378137 (669437999 / 100000000000) (RAD 91) (RAD 7)
        \<lparr>N_cell = 0, E_cell = 0, zone_cell = GRID_AUTO, hemi_cell = HEMI_AUTO\<rparr>
      = (0, \<lparr>N_cell = 0, E_cell = 0, zone_cell = GRID_AUTO, hemi_cell = HEMI_AUTO\<rparr>)
   \<and> RAD (- 90) \<le> RAD 60 \<and> RAD 60 \<le> RAD 90
   \<and> fst (geographic_to_grid 6378137 (669437999 / 100000000000) (RAD 60) (RAD 7)
        \<lparr>N_cell = 0, E_cell = 0, zone_cell = GRID_AUTO, hemi_cell = HEMI_AUTO\<rparr>) = 1"
  using geographic_to_grid_fails_iff_latitude_out_of_range
          [of 6378137 "669437999 / 100000000000" "RAD 91" "RAD 7"
          "\<lparr>N_cell = 0, E_cell = 0, zone_cell = GRID_AUTO, hemi_cell = HEMI_AUTO\<rparr>"]
        geographic_to_grid_fails_iff_latitude_out_of_range
          [of 6378137 "669437999 / 100000000000" "RAD 60" "RAD 7"
          "\<lparr>N_cell = 0, E_cell = 0, zone_cell = GRID_AUTO, hemi_cell = HEMI_AUTO\<rparr>"]
  by (simp add: RAD_less_iff RAD_le_iff prod_eq_iff)

text \<open>
  Claim C6 says that with the request \<^verbatim>\<open>GRID_AUTO\<close> a latitude below 84\<degree> and not below
  -80\<degree> selects a UTM zone (83.999\<degree> is its example). At the longitude 180\<degree> the zone
  cell holds \<^verbatim>\<open>UPS_NORTH\<close> on return for such latitudes, 83.999\<degree> and -10\<degree> among them,
  while the hemisphere cell follows the latitude.
\<close>

theorem auto_below_84_at_180_gives_ups_north:
  "zone_cell (snd (geographic_to_grid a e2 (RAD (83999 / 1000)) (RAD 180)
     \<lparr>N_cell = n0, E_cell = e0, zone_cell = GRID_AUTO, hemi_cell = HEMI_AUTO\<rparr>)) = UPS_NORTH
  \<and> zone_cell (snd (geographic_to_grid a e2 (RAD (- 10)) (RAD 180)
     \<lparr>N_cell = n0, E_cell = e0, zone_cell = GRID_AUTO, hemi_cell = HEMI_AUTO\<rparr>)) = UPS_NORTH
  \<and> hemi_cell (snd (geographic_to_grid a e2 (RAD (- 10)) (RAD 180)
     \<lparr>N_cell = n0, E_cell = e0, zone_cell = GRID_AUTO, hemi_cell = HEMI_AUTO\<rparr>)) = HEMI_SOUTH"
  by (simp add: geographic_to_grid_def wrap_lon_def utm_izone_def RAD_simps zone_defs Let_def
      utm_branch_cells)

section \<open>Claims about \<^verbatim>\<open>grid_to_geographic\<close>\<close>

text \<open>
  Claim C9: \<^verbatim>\<open>grid_to_geographic\<close> returns 0 exactly when the zone is not a UPS marker
  and lies outside 1..60 (the two automatic requests among them), or is a UTM zone and the
  hemisphere is neither north nor south. For the zones \<^verbatim>\<open>UPS_NORTH\<close> and
  \<^verbatim>\<open>UPS_SOUTH\<close> it returns 1 whatever the hemisphere argument, and the inverse polar
  projection is taken for the hemisphere of the pole.
\<close>

theorem grid_to_geographic_fails_iff:
  "(fst (grid_to_geographic a e2 zone hemi N E st) = 0
      \<longleftrightarrow> (zone \<noteq> UPS_NORTH \<and> zone \<noteq> UPS_SOUTH \<and> (zone < 1 \<or> zone > 60))
          \<or> (1 \<le> zone \<and> zone \<le> 60 \<and> hemi \<noteq> HEMI_NORTH \<and> hemi \<noteq> HEMI_SOUTH))
   \<and> (fst (grid_to_geographic a e2 zone hemi N E st) = 0
      \<or> fst (grid_to_geographic a e2 zone hemi N E st) = 1)
   \<and> (fst (grid_to_geographic a e2 zone hemi N E st) = 0
      \<longrightarrow> snd (grid_to_geographic a e2 zone hemi N E st) = st)
   \<and> fst (grid_to_geographic a e2 UTM_ZONE_AUTO hemi N E st) = 0
   \<and> fst (grid_to_geographic a e2 GRID_AUTO hemi N E st) = 0
   \<and> grid_to_geographic a e2 UPS_NORTH hemi N E st
       = (1, if e2 \<noteq> 0 then ps_to_geographic a e2 UPS_K0 HEMI_NORTH UPS_FN UPS_FE N E st
             else ps_to_geographic_sphere a UPS_K0 HEMI_NORTH UPS_FN UPS_FE N E st)
   \<and> grid_to_geographic a e2 UPS_SOUTH hemi N E st
       = (1, if e2 \<noteq> 0 then ps_to_geographic a e2 UPS_K0 HEMI_SOUTH UPS_FN UPS_FE N E st
             else ps_to_geographic_sphere a UPS_K0 HEMI_SOUTH UPS_FN UPS_FE N E st)"
  by (auto simp add: grid_to_geographic_def Let_def zone_defs)

theorem grid_to_geographic_fails_iff_witness:
  "grid_to_geographic 6378137 (669437999 / 100000000000) 11 HEMI_AUTO 3544404 216577
        \<lparr>lat_cell = 0, lon_cell = 0\<rparr>
      = (0, \<lparr>lat_cell = 0, lon_cell = 0\<rparr>)
   \<and> fst (grid_to_geographic 6378137 (669437999 / 100000000000) 11 HEMI_NORTH 3544404 216577
        \<lparr>lat_cell = 0, lon_cell = 0\<rparr>) = 1
   \<and> fst (grid_to_geographic 6378137 (669437999 / 100000000000) 64 HEMI_NORTH 3544404 216577
        \<lparr>lat_cell = 0, lon_cell = 0\<rparr>) = 0
   \<and> fst (grid_to_geographic 6378137 (669437999 / 100000000000) UPS_SOUTH HEMI_AUTO 2000000
        2000000 \<lparr>lat_cell = 0, lon_cell = 0\<rparr>) = 1"
  using grid_to_geographic_fails_iff
          [of 6378137 "669437999 / 100000000000" 11 HEMI_AUTO 3544404 216577
          "\<lparr>lat_cell = 0, lon_cell = 0\<rparr>"]
        grid_to_geographic_fails_iff
          [of 6378137 "669437999 / 100000000000" 11 HEMI_NORTH 3544404 216577
          "\<lparr>lat_cell = 0, lon_cell = 0\<rparr>"]
        grid_to_geographic_fails_iff
          [of 6378137 "669437999 / 100000000000" 64 HEMI_NORTH 3544404 216577
          "\<lparr>lat_cell = 0, lon_cell = 0\<rparr>"]
        grid_to_geographic_fails_iff
          [of 6378137 "669437999 / 100000000000" UPS_SOUTH HEMI_AUTO 2000000 2000000
          "\<lparr>lat_cell = 0, lon_cell = 0\<rparr>"]
  by (auto simp add: zone_defs prod_eq_iff)

section \<open>Claims about the polar stereographic projections\<close>

text \<open>
  Claim C10: called with \<^verbatim>\<open>HEMI_AUTO\<close>, \<^verbatim>\<open>geographic_to_ps\<close> assigns the easting
  (by the formula of the southern hemisphere) and leaves the northing cell as it was,
  \<^verbatim>\<open>geographic_to_ps_sphere\<close> and \<^verbatim>\<open>ps_to_geographic_sphere\<close> assign nothing, and
  \<^verbatim>\<open>ps_to_geographic\<close> leaves the latitude cell as it was and assigns the longitude (0)
  at the origin only. With \<^verbatim>\<open>HEMI_NORTH\<close> or \<^verbatim>\<open>HEMI_SOUTH\<close> both cells are
  assigned: the result does not depend on what the cells held before.
\<close>

theorem ps_primitives_without_hemisphere:
  fixes st st' :: grid_cells and gst gst' :: geo_cells
  shows
  "E_cell (geographic_to_ps a e2 k0 HEMI_AUTO FN FE lat_rad lon_rad st)
     = FE + k0 * (2 * a / sqrt (1 - e2) * pow ((1 - sqrt e2) / (1 + sqrt e2)) (sqrt e2 / 2))
          * (pow ((1 - sqrt e2 * sin lat_rad) / (1 + sqrt e2 * sin lat_rad)) (sqrt e2 / 2)
             * tan (pi / 4 + lat_rad / 2))
          * sin lon_rad
   \<and> E_cell (geographic_to_ps a e2 k0 HEMI_AUTO FN FE lat_rad lon_rad st)
     = E_cell (geographic_to_ps a e2 k0 HEMI_SOUTH FN FE lat_rad lon_rad st)
   \<and> N_cell (geographic_to_ps a e2 k0 HEMI_AUTO FN FE lat_rad lon_rad st) = N_cell st
   \<and> geographic_to_ps_sphere R k0 HEMI_AUTO FN FE lat_rad lon_rad st = st
   \<and> lat_cell (ps_to_geographic a e2 k0 HEMI_AUTO FN FE N E gst) = lat_cell gst
   \<and> lon_cell (ps_to_geographic a e2 k0 HEMI_AUTO FN FE N E gst)
     = (if E - FE = 0 \<and> N - FN = 0 then 0 else lon_cell gst)
   \<and> ps_to_geographic_sphere R k0 HEMI_AUTO FN FE N E gst = gst
   \<and> (hemi \<noteq> HEMI_AUTO \<longrightarrow>
        geographic_to_ps a e2 k0 hemi FN FE lat_rad lon_rad st
          = geographic_to_ps a e2 k0 hemi FN FE lat_rad lon_rad st'
      \<and> geographic_to_ps_sphere R k0 hemi FN FE lat_rad lon_rad st
          = geographic_to_ps_sphere R k0 hemi FN FE lat_rad lon_rad st'
      \<and> ps_to_geographic a e2 k0 hemi FN FE N E gst
          = ps_to_geographic a e2 k0 hemi FN FE N E gst'
      \<and> ps_to_geographic_sphere R k0 hemi FN FE N E gst
          = ps_to_geographic_sphere R k0 hemi FN FE N E gst')"
proof -
  have auto_fwd:
    "E_cell (geographic_to_ps a e2 k0 HEMI_AUTO FN FE lat_rad lon_rad st)
       = FE + k0 * (2 * a / sqrt (1 - e2) * pow ((1 - sqrt e2) / (1 + sqrt e2)) (sqrt e2 / 2))
            * (pow ((1 - sqrt e2 * sin lat_rad) / (1 + sqrt e2 * sin lat_rad)) (sqrt e2 / 2)
               * tan (pi / 4 + lat_rad / 2))
            * sin lon_rad"
    "E_cell (geographic_to_ps a e2 k0 HEMI_AUTO FN FE lat_rad lon_rad st)
       = E_cell (geographic_to_ps a e2 k0 HEMI_SOUTH FN FE lat_rad lon_rad st)"
    "N_cell (geographic_to_ps a e2 k0 HEMI_AUTO FN FE lat_rad lon_rad st) = N_cell st"
    "geographic_to_ps_sphere R k0 HEMI_AUTO FN FE lat_rad lon_rad st = st"
    by (simp_all add: geographic_to_ps_def geographic_to_ps_sphere_def Let_def)
  have auto_inv:
    "lat_cell (ps_to_geographic a e2 k0 HEMI_AUTO FN FE N E gst) = lat_cell gst"
    "lon_cell (ps_to_geographic a e2 k0 HEMI_AUTO FN FE N E gst)
       = (if E - FE = 0 \<and> N - FN = 0 then 0 else lon_cell gst)"
    "ps_to_geographic_sphere R k0 HEMI_AUTO FN FE N E gst = gst"
    by (simp_all add: ps_to_geographic_def ps_to_geographic_sphere_def Let_def)
  have given: "hemi \<noteq> HEMI_AUTO \<longrightarrow>
        geographic_to_ps a e2 k0 hemi FN FE lat_rad lon_rad st
          = geographic_to_ps a e2 k0 hemi FN FE lat_rad lon_rad st'
      \<and> geographic_to_ps_sphere R k0 hemi FN FE lat_rad lon_rad st
          = geographic_to_ps_sphere R k0 hemi FN FE lat_rad lon_rad st'
      \<and> ps_to_geographic a e2 k0 hemi FN FE N E gst
          = ps_to_geographic a e2 k0 hemi FN FE N E gst'
      \<and> ps_to_geographic_sphere R k0 hemi FN FE N E gst
          = ps_to_geographic_sphere R k0 hemi FN FE N E gst'"
    by (cases hemi)
       (simp_all add: geographic_to_ps_def geographic_to_ps_sphere_def
          ps_to_geographic_def ps_to_geographic_sphere_def Let_def)
  from auto_fwd auto_inv given show ?thesis by blast
qed

theorem ps_primitives_without_hemisphere_witness:
  "HEMI_NORTH \<noteq> HEMI_AUTO
   \<and> geographic_to_ps 6378137 (669437999 / 100000000000) UPS_K0 HEMI_NORTH UPS_FN UPS_FE
        (RAD 85) (RAD 3) \<lparr>N_cell = 0, E_cell = 0\<rparr>
     = geographic_to_ps 6378137 (669437999 / 100000000000) UPS_K0 HEMI_NORTH UPS_FN UPS_FE
        (RAD 85) (RAD 3) \<lparr>N_cell = 7, E_cell = 9\<rparr>
   \<and> N_cell (geographic_to_ps 6378137 (669437999 / 100000000000) UPS_K0 HEMI_AUTO UPS_FN
        UPS_FE (RAD 85) (RAD 3) \<lparr>N_cell = 7, E_cell = 9\<rparr>) = 7
   \<and> ps_to_geographic 6378137 (669437999 / 100000000000) UPS_K0 HEMI_AUTO UPS_FN UPS_FE
        2000000 2000000 \<lparr>lat_cell = 7, lon_cell = 9\<rparr> = \<lparr>lat_cell = 7, lon_cell = 0\<rparr>"
  using ps_primitives_without_hemisphere
          [of 6378137 "669437999 / 100000000000" UPS_K0 UPS_FN UPS_FE "RAD 85" "RAD 3"
            "\<lparr>N_cell = 7, E_cell = 9\<rparr>" 6378137 2000000 2000000
            "\<lparr>lat_cell = 7, lon_cell = 9\<rparr>" HEMI_NORTH "\<lparr>N_cell = 0, E_cell = 0\<rparr>"
            "\<lparr>lat_cell = 0, lon_cell = 0\<rparr>"]
  by (simp add: UPS_FN_def UPS_FE_def geo_cells.equality)

section \<open>Claims about the point scale of the Transverse Mercator projection\<close>

lemma scale_proportional:
  "scale_cell (geographic_to_tm_with_convergence_and_scale a e2 k0 lon_mer FN FE lat_rad lon_rad st)
     = k0 * scale_cell (geographic_to_tm_with_convergence_and_scale a e2 1 lon_mer FN FE
                          lat_rad lon_rad st)"
  by (simp add: geographic_to_tm_with_convergence_and_scale_def Let_def)

lemma tanh_artanh:
  assumes "\<bar>x\<bar> < 1"
  shows "tanh (artanh x) = (x::real)"
proof -
  from assms have pos: "0 < 1 + x" "0 < 1 - x"
    by simp_all
  then have u: "0 < (1 + x) / (1 - x)"
    by simp
  have "exp (- 2 * artanh x) = inverse (exp (ln ((1 + x) / (1 - x))))"
    by (simp add: artanh_def exp_minus)
  also have "\<dots> = (1 - x) / (1 + x)"
    using u by simp
  finally have e: "exp (- 2 * artanh x) = (1 - x) / (1 + x)" .
  have "tanh (artanh x) = (1 - (1 - x) / (1 + x)) / (1 + (1 - x) / (1 + x))"
    unfolding tanh_real_altdef e ..
  also have "\<dots> = x"
    using pos by (simp add: field_simps)
  finally show ?thesis .
qed

lemma cosh_artanh_sq:
  assumes "\<bar>x\<bar> < 1"
  shows "1 + sinh (artanh x) * sinh (artanh x) = 1 / (1 - x * (x::real))"
proof -
  let ?y = "artanh x"
  have c: "cosh ?y * cosh ?y = 1 + sinh ?y * sinh ?y"
    using cosh_square_eq [of ?y] by (simp add: power2_eq_square)
  have "sinh ?y = tanh ?y * cosh ?y"
    by (simp add: tanh_def)
  then have s: "sinh ?y = x * cosh ?y"
    by (simp add: tanh_artanh [OF assms])
  from assms have "x * x < 1"
    by (metis abs_mult_self_eq abs_ge_zero mult_strict_mono' mult_1 abs_mult)
  then have nz: "1 - x * x \<noteq> 0"
    by simp
  have "cosh ?y * cosh ?y * (1 - x * x) = cosh ?y * cosh ?y - (x * cosh ?y) * (x * cosh ?y)"
    by (simp add: algebra_simps)
  also have "\<dots> = 1"
    unfolding s [symmetric] c by simp
  finally have "cosh ?y * cosh ?y = 1 / (1 - x * x)"
    using nz by (simp add: field_simps)
  with c show ?thesis
    by simp
qed


lemma scale_on_meridian_sphere_unfold:
  "scale_cell (geographic_to_tm_with_convergence_and_scale a 0 k0 lon_mer FN FE
                       lat_rad lon_mer st)
     = k0 * a / a * sqrt ((1 + tan lat_rad * tan lat_rad)
          / (sinh (artanh (sin lat_rad)) * sinh (artanh (sin lat_rad)) + 1))"
  by (simp add: geographic_to_tm_with_convergence_and_scale_def Let_def poly4_def SQR_def)


lemma scale_on_meridian_sphere:
  assumes "a \<noteq> 0" and "\<bar>lat_rad\<bar> < pi / 2"
  shows "scale_cell (geographic_to_tm_with_convergence_and_scale a 0 k0 lon_mer FN FE
                       lat_rad lon_mer st) = k0"
proof -
  let ?s = "sin lat_rad" and ?c = "cos lat_rad"
  from assms(2) have cpos: "0 < ?c"
    by (intro cos_gt_zero_pi) (simp_all add: abs_less_iff)
  then have c2pos: "0 < ?c * ?c"
    by simp
  have c2: "1 - ?s * ?s = ?c * ?c"
    using sin_cos_squared_add3 [of lat_rad] by linarith
  with c2pos have "?s * ?s < 1"
    by linarith
  then have "?s\<^sup>2 < 1"
    by (simp only: power2_eq_square)
  then have "\<bar>?s\<bar> < 1"
    by (simp add: abs_square_less_1)
  then have "1 + sinh (artanh ?s) * sinh (artanh ?s) = 1 / (1 - ?s * ?s)"
    by (rule cosh_artanh_sq)
  then have t: "sinh (artanh ?s) * sinh (artanh ?s) + 1 = 1 / (?c * ?c)"
    unfolding c2 by (simp only: add.commute)
  have "1 + tan lat_rad * tan lat_rad = (?c * ?c) / (?c * ?c) + (?s * ?s) / (?c * ?c)"
    using cpos by (simp add: tan_def)
  also have "\<dots> = (?c * ?c + ?s * ?s) / (?c * ?c)"
    by (simp only: add_divide_distrib)
  also have "\<dots> = 1 / (?c * ?c)"
    by (simp only: sin_cos_squared_add3)
  finally have tn: "1 + tan lat_rad * tan lat_rad = 1 / (?c * ?c)" .
  have nz: "1 / (?c * ?c) \<noteq> 0"
    using cpos by simp
  have "scale_cell (geographic_to_tm_with_convergence_and_scale a 0 k0 lon_mer FN FE
                       lat_rad lon_mer st)
      = k0 * a / a * sqrt ((1 / (?c * ?c)) / (1 / (?c * ?c)))"
    unfolding scale_on_meridian_sphere_unfold tn t ..
  also have "\<dots> = k0"
    using assms(1) nz by simp
  finally show ?thesis .
qed


lemma scale_on_meridian_equator:
  "scale_cell (geographic_to_tm_with_convergence_and_scale a e2 k0 lon_mer FN FE 0 lon_mer st)
     = (let f = 1 - sqrt (1 - e2);
            n = f / (2 - f);
            A = a / (1 + n) * poly4 (n * n) 1 (1 / 4) (1 / 64) (1 / 256) (25 / 16384);
            a1 = poly4 n 0 (1 / 2) (- 2 / 3) (5 / 16) (41 / 180);
            a2 = poly4 n 0 0 (13 / 48) (- 3 / 5) (557 / 1440);
            a3 = poly4 n 0 0 0 (61 / 240) (- 103 / 140);
            a4 = poly4 n 0 0 0 0 (49561 / 161280);
            sigma = 1 + 2 * (a1 + 2 * a2 + 3 * a3 + 4 * a4)
        in k0 * A / a * \<bar>sigma\<bar>)"
  by (simp add: geographic_to_tm_with_convergence_and_scale_def Let_def SQR_def)

lemma sqrt_flattening_300: "sqrt (1 - 599 / 90000) = 299 / 300"
  by (rule real_sqrt_unique) (simp_all add: power2_eq_square)


text \<open>
  The eccentricity and the size of the scale factor matter as well: for \<^verbatim>\<open>e2 = 8/9\<close> the
  truncated series are off by almost one part in a thousand, and for a scale factor of
  \<open>10\<^sup>7\<close> an error of less than one part in \<open>10\<^sup>1\<^sup>5\<close> exceeds \<open>10\<^sup>-\<^sup>9\<close>.
\<close>

lemma scale_on_meridian_large_eccentricity:
  "scale_cell (geographic_to_tm_with_convergence_and_scale 6378137 (8 / 9) 1
       0 0 500000 0 0 \<lparr>N_cell = 0, E_cell = 0, conv_cell = 0, scale_cell = 0\<rparr>)
     = 2145656825 / 2147483648"
proof -
  have "sqrt (1 - 8 / 9) = 1 / (3 :: real)"
    by (rule real_sqrt_unique) (simp_all add: power2_eq_square)
  then have n: "(1 - sqrt (1 - 8 / 9)) / (2 - (1 - sqrt (1 - 8 / 9))) = 1 / (2 :: real)"
    by simp
  show ?thesis
    unfolding scale_on_meridian_equator Let_def n
    by (simp add: poly4_def)
qed

lemma scale_on_meridian_large_factor:
  "\<not> \<bar>scale_cell (geographic_to_tm_with_convergence_and_scale 6378137 (599 / 90000) (10 ^ 7)
       0 0 500000 0 0 \<lparr>N_cell = 0, E_cell = 0, conv_cell = 0, scale_cell = 0\<rparr>) - 10 ^ 7\<bar>
     \<le> 1 / 10 ^ 9"
proof -
  have n: "(1 - sqrt (1 - 599 / 90000)) / (2 - (1 - sqrt (1 - 599 / 90000))) = 1 / 599"
    unfolding sqrt_flattening_300 by simp
  have "scale_cell (geographic_to_tm_with_convergence_and_scale 6378137 (599 / 90000) (10 ^ 7)
       0 0 500000 0 0 \<lparr>N_cell = 0, E_cell = 0, conv_cell = 0, scale_cell = 0\<rparr>)
     = 10 ^ 7 *
       (29880299521562098477218500140120925633 / 29880299521562116602568073966038024192)"
    unfolding scale_on_meridian_equator Let_def n
    by (simp add: poly4_def)
  then show ?thesis
    by simp
qed

subsection \<open>Truncated power series\<close>
















lemma tm_poly: "tm (bv P w n) (P, 0) w n"
  by (simp add: tm_def)












subsection \<open>Bounds for the inverse hyperbolic tangent and the hyperbolic sine and cosine\<close>






subsection \<open>The series on the central meridian\<close>


subsection \<open>The point scale on the central meridian\<close>










section \<open>Claims about the loop of \<^verbatim>\<open>dmatm_tm_to_geographic\<close>\<close>

lemma loop_exit:
  "dmatm_within_tolerance a n k0 y phi \<Longrightarrow> dmatm_phi_loop a n k0 y phi = Some (phi, sin phi)"
  by (subst dmatm_phi_loop.simps) (simp add: Let_def dmatm_within_tolerance_def)

lemma loop_pass:
  "\<not> dmatm_within_tolerance a n k0 y phi \<Longrightarrow> dmatm_T1 a n k0 phi \<noteq> 0 \<Longrightarrow>
   dmatm_phi_loop a n k0 y phi = dmatm_phi_loop a n k0 y (phi * (y / dmatm_T1 a n k0 phi))"
  by (subst dmatm_phi_loop.simps) (simp add: Let_def dmatm_within_tolerance_def)

lemma loop_stuck:
  "\<not> dmatm_within_tolerance a n k0 y phi \<Longrightarrow> dmatm_T1 a n k0 phi = 0 \<Longrightarrow>
   dmatm_phi_loop a n k0 y phi = None"
  by (subst dmatm_phi_loop.simps) (simp add: Let_def dmatm_within_tolerance_def)

lemma loop_returns_iterate:
  "dmatm_passes a n k0 y j phi \<Longrightarrow>
   dmatm_within_tolerance a n k0 y (dmatm_iterate a n k0 y j phi) \<Longrightarrow>
   dmatm_phi_loop a n k0 y phi
     = Some (dmatm_iterate a n k0 y j phi, sin (dmatm_iterate a n k0 y j phi))"
proof (induction j arbitrary: phi)
  case 0
  then show ?case by (simp add: loop_exit)
next
  case (Suc j)
  let ?phi' = "phi * (y / dmatm_T1 a n k0 phi)"
  from Suc.prems(1) have now: "\<not> dmatm_within_tolerance a n k0 y phi"
    "dmatm_T1 a n k0 phi \<noteq> 0" and later: "dmatm_passes a n k0 y j ?phi'"
    by simp_all
  from Suc.prems(2) have "dmatm_within_tolerance a n k0 y (dmatm_iterate a n k0 y j ?phi')"
    by simp
  with later have "dmatm_phi_loop a n k0 y ?phi'
      = Some (dmatm_iterate a n k0 y j ?phi', sin (dmatm_iterate a n k0 y j ?phi'))"
    by (rule Suc.IH)
  then show ?case
    by (simp add: loop_pass [OF now])
qed

lemma exit_after_0:
  "dmatm_within_tolerance a n k0 y phi \<Longrightarrow> dmatm_exit_after a n k0 y phi (phi, sin phi) 0"
  by (simp add: dmatm_exit_after_def)

lemma exit_after_Suc:
  "\<not> dmatm_within_tolerance a n k0 y phi \<Longrightarrow> dmatm_T1 a n k0 phi \<noteq> 0 \<Longrightarrow>
   dmatm_exit_after a n k0 y (phi * (y / dmatm_T1 a n k0 phi)) r j \<Longrightarrow>
   dmatm_exit_after a n k0 y phi r (Suc j)"
  by (simp add: dmatm_exit_after_def)

lemma loop_result_is_iterate:
  assumes "dmatm_phi_loop a n k0 y phi = Some r"
  shows "\<exists>j. dmatm_exit_after a n k0 y phi r j"
proof (rule dmatm_phi_loop.raw_induct
    [where P = "\<lambda>a n k0 y phi r. \<exists>j. dmatm_exit_after a n k0 y phi r j", OF _ assms])
  fix loop :: "real \<Rightarrow> real \<Rightarrow> real \<Rightarrow> real \<Rightarrow> real \<Rightarrow> (real \<times> real) option"
  fix a n k0 y phi :: real and r :: "real \<times> real"
  assume IH: "\<And>a n k0 y phi r. loop a n k0 y phi = Some r \<Longrightarrow>
      \<exists>j. dmatm_exit_after a n k0 y phi r j"
  assume body: "(let s = sin phi; T1 = dmatm_T1 a n k0 phi
      in if fabs (T1 - y) < TM_TO_GEOGRAPHIC_TOLERANCE_M then Some (phi, s)
         else if T1 = 0 then None
         else loop a n k0 y (phi * (y / T1))) = Some r"
  show "\<exists>j. dmatm_exit_after a n k0 y phi r j"
  proof (cases "dmatm_within_tolerance a n k0 y phi")
    case True
    with body have "r = (phi, sin phi)"
      by (simp add: Let_def dmatm_within_tolerance_def)
    with True have "dmatm_exit_after a n k0 y phi r 0"
      by (simp add: exit_after_0)
    then show ?thesis ..
  next
    case False
    show ?thesis
    proof (cases "dmatm_T1 a n k0 phi = 0")
      case True
      with False body show ?thesis
        by (simp add: Let_def dmatm_within_tolerance_def)
    next
      case nz: False
      with False body have "loop a n k0 y (phi * (y / dmatm_T1 a n k0 phi)) = Some r"
        by (simp add: Let_def dmatm_within_tolerance_def)
      then obtain j where "dmatm_exit_after a n k0 y (phi * (y / dmatm_T1 a n k0 phi)) r j"
        using IH by blast
      with False nz have "dmatm_exit_after a n k0 y phi r (Suc j)"
        by (rule exit_after_Suc)
      then show ?thesis ..
    qed
  qed
qed


lemma loop_sound:
  assumes "dmatm_phi_loop a n k0 y phi = Some r"
  shows "dmatm_within_tolerance a n k0 y (fst r) \<and> snd r = sin (fst r)"
proof -
  from assms obtain j where "dmatm_exit_after a n k0 y phi r j"
    using loop_result_is_iterate by blast
  then show ?thesis
    by (simp add: dmatm_exit_after_def)
qed

lemma loop_returns_iff:
  "dmatm_phi_loop a n k0 y phi = Some r \<longleftrightarrow> (\<exists>j. dmatm_exit_after a n k0 y phi r j)"
proof
  assume "dmatm_phi_loop a n k0 y phi = Some r"
  then show "\<exists>j. dmatm_exit_after a n k0 y phi r j"
    by (rule loop_result_is_iterate)
next
  assume "\<exists>j. dmatm_exit_after a n k0 y phi r j"
  then obtain j where "dmatm_exit_after a n k0 y phi r j" ..
  then show "dmatm_phi_loop a n k0 y phi = Some r"
    by (simp add: dmatm_exit_after_def loop_returns_iterate)
qed

lemma dmatm_returns_iff_loop:
  "dmatm_tm_to_geographic a e2 k0 lon_mer FN FE N E st \<noteq> None \<longleftrightarrow>
     (let f = 1 - sqrt (1 - e2);
          n = f / (2 - f);
          b = a * (1 - f);
          y = N - FN
      in b \<noteq> 0 \<and> k0 \<noteq> 0 \<and> dmatm_phi_loop a n k0 y (y / b / k0) \<noteq> None)"
  by (simp add: dmatm_tm_to_geographic_def Let_def split: option.split prod.split)

text \<open>
  Claim C3 says that the loop of \<^verbatim>\<open>dmatm_tm_to_geographic\<close> ends for every input,
  by an iteration cap next to the tolerance test, and reports an error when the cap is hit.
  The loop is \<^verbatim>\<open>while(1)\<close> with the tolerance test as its only exit, and the function
  returns \<^verbatim>\<open>void\<close>. With the scale factor \<^verbatim>\<open>k0 = 0\<close> the call does not return: the
  first estimate \<^verbatim>\<open>y/b/k0\<close> is infinite; and from any finite estimate \<^verbatim>\<open>T1\<close> is 0,
  one metre and more away from \<^verbatim>\<open>y\<close>, and \<^verbatim>\<open>phi *= y/T1\<close> divides by zero.
\<close>

theorem dmatm_does_not_return_for_k0_zero:
  "dmatm_tm_to_geographic 6378137 (669437999 / 100000000000) 0 0 0 500000 1000000 500000
       \<lparr>lat_cell = 0, lon_cell = 0\<rparr> = None
   \<and> dmatm_phi_loop 6378137 (1 / 599) 0 1000000 1 = None"
proof -
  have "dmatm_T1 6378137 (1 / 599) 0 1 = 0"
    by (simp add: dmatm_T1_def Let_def)
  moreover from this have "\<not> dmatm_within_tolerance 6378137 (1 / 599) 0 1000000 1"
    by (simp add: dmatm_within_tolerance_def fabs_def TM_TO_GEOGRAPHIC_TOLERANCE_M_def)
  ultimately have "dmatm_phi_loop 6378137 (1 / 599) 0 1000000 1 = None"
    by (intro loop_stuck)
  then show ?thesis
    by (simp add: dmatm_tm_to_geographic_def Let_def)
qed

text \<open>
  Claim C3 as amended: the loop of \<^verbatim>\<open>dmatm_tm_to_geographic\<close> has the tolerance test
  of 0.001 m as its only exit, no iteration cap and no error result. It returns exactly
  when, after some number of passes none of which divides by zero, the estimate meets the
  tolerance, and then with that estimate (never with one that misses the tolerance);
  \<^verbatim>\<open>dmatm_tm_to_geographic\<close> returns exactly when \<^verbatim>\<open>b\<close> and \<^verbatim>\<open>k0\<close> are not zero
  and the loop returns from the first estimate \<^verbatim>\<open>y/b/k0\<close>.
\<close>

theorem dmatm_returns_iff_tolerance_met:
  "(dmatm_phi_loop a n k0 y phi = Some r \<longleftrightarrow> (\<exists>j. dmatm_exit_after a n k0 y phi r j))
   \<and> (dmatm_phi_loop a n k0 y phi = Some r \<longrightarrow>
        dmatm_within_tolerance a n k0 y (fst r) \<and> snd r = sin (fst r))
   \<and> (dmatm_tm_to_geographic a e2 k0 lon_mer FN FE N E st \<noteq> None \<longleftrightarrow>
        (let f = 1 - sqrt (1 - e2);
             n = f / (2 - f);
             b = a * (1 - f);
             y = N - FN
         in b \<noteq> 0 \<and> k0 \<noteq> 0 \<and> dmatm_phi_loop a n k0 y (y / b / k0) \<noteq> None))"
  using loop_returns_iff [of a n k0 y phi r] loop_sound [of a n k0 y phi r]
    dmatm_returns_iff_loop [of a e2 k0 lon_mer FN FE N E st]
  by blast

lemma T1_sphere: "dmatm_T1 a 0 k0 phi = a * phi * k0"
  by (simp add: dmatm_T1_def Let_def)

lemma T1_at_zero: "dmatm_T1 a n k0 0 = 0"
  by (simp add: dmatm_T1_def Let_def)

theorem dmatm_returns_iff_tolerance_met_witness:
  "dmatm_exit_after 6378137 0 (9996 / 10000) 1000000 1
       (1000000 / (6378137 * (9996 / 10000)), sin (1000000 / (6378137 * (9996 / 10000))))
       (Suc 0)
   \<and> dmatm_phi_loop 6378137 0 (9996 / 10000) 1000000 1
       = Some (1000000 / (6378137 * (9996 / 10000)),
               sin (1000000 / (6378137 * (9996 / 10000))))
   \<and> dmatm_tm_to_geographic 6378137 (599 / 90000) (9996 / 10000) 0 0 500000 0 500000
        \<lparr>lat_cell = 7, lon_cell = 7\<rparr> \<noteq> None"
proof -
  let ?p = "1000000 / (6378137 * (9996 / 10000)) :: real"
  note inst = dmatm_returns_iff_tolerance_met [of 6378137 0 "9996 / 10000" 1000000 1
      "(?p, sin ?p)" "599 / 90000" 0 0 500000 0 500000 "\<lparr>lat_cell = 7, lon_cell = 7\<rparr>"]
  have ex: "dmatm_exit_after 6378137 0 (9996 / 10000) 1000000 1 (?p, sin ?p) (Suc 0)"
    by (simp add: dmatm_exit_after_def dmatm_within_tolerance_def T1_sphere fabs_def
        TM_TO_GEOGRAPHIC_TOLERANCE_M_def)
  then have "\<exists>j. dmatm_exit_after 6378137 0 (9996 / 10000) 1000000 1 (?p, sin ?p) j" ..
  with inst have loop: "dmatm_phi_loop 6378137 0 (9996 / 10000) 1000000 1 = Some (?p, sin ?p)"
    by blast
  have "dmatm_within_tolerance 6378137 (1 / 599) (9996 / 10000) 0 0"
    by (simp add: dmatm_within_tolerance_def T1_at_zero fabs_def
        TM_TO_GEOGRAPHIC_TOLERANCE_M_def)
  then have eq: "dmatm_phi_loop 6378137 (1 / 599) (9996 / 10000) 0 0 \<noteq> None"
    by (simp add: loop_exit)
  have n: "(1 - sqrt (1 - 599 / 90000)) / (2 - (1 - sqrt (1 - 599 / 90000))) = 1 / 599"
    unfolding sqrt_flattening_300 by simp
  have b: "6378137 * (1 - (1 - sqrt (1 - 599 / 90000))) \<noteq> 0"
    unfolding sqrt_flattening_300 by simp
  have "let f = 1 - sqrt (1 - 599 / 90000);
            n = f / (2 - f);
            b = 6378137 * (1 - f);
            y = 0 - 0
        in b \<noteq> 0 \<and> 9996 / 10000 \<noteq> (0::real)
           \<and> dmatm_phi_loop 6378137 n (9996 / 10000) y (y / b / (9996 / 10000)) \<noteq> None"
    unfolding Let_def n using b eq by simp
  with inst have "dmatm_tm_to_geographic 6378137 (599 / 90000) (9996 / 10000) 0 0 500000 0
      500000 \<lparr>lat_cell = 7, lon_cell = 7\<rparr> \<noteq> None"
    by blast
  with ex loop show ?thesis
    by blast
qed

end
